theory Spec2Isabelle
  imports Complex_Main "HOL-Library.AList"
begin

section \<open>Voice shopping assistant: sessions, turns and the intent classifier\<close>

text \<open>
  A shallow embedding of the voice pipeline of the storefront:
  \<^item> \<^verbatim>\<open>app/lib/voice-ai/voice-session.service.ts\<close> (the session store and lifecycle),
  \<^item> \<^verbatim>\<open>app/lib/voice-ai/vertex-assistant.service.server.ts\<close> (intent classifier, action
    extraction, the fallback reply),
  \<^item> the speech-to-text service \<^verbatim>\<open>transcribeAudio\<close>,
  \<^item> the routes \<^verbatim>\<open>api.voice.process-audio.tsx\<close> and \<^verbatim>\<open>api.voice.end-session.tsx\<close>.

  Conventions. A JavaScript string is a \<open>string\<close>, its characters read as code points
  0..255. An ISO timestamp (\<^verbatim>\<open>new Date().toISOString()\<close>) is the number of milliseconds it
  denotes, an \<open>int\<close>: the code only ever parses it back (\<^verbatim>\<open>new Date(s).getTime()\<close>) or
  compares two of them, and on ISO strings of one length the lexicographic order is the
  chronological one. An optional field is an \<open>option\<close>. The Firestore collection
  \<^verbatim>\<open>voice_sessions\<close> is an association list from document id to document. A thrown exception
  is the \<open>Inl\<close> of a sum. Calls are sequential: one request runs from its first to its last
  store access with no other writer in between. The Firestore client is the one the source
  builds, with its default settings: a write that carries a property whose value is
  \<^verbatim>\<open>undefined\<close> is rejected before anything is stored, and \<^verbatim>\<open>update\<close> is rejected when the
  document does not exist; any other write succeeds.
\<close>

subsection \<open>Strings and the two kinds of regular expression the code uses\<close>

definition is_word_char :: "char \<Rightarrow> bool" where
  \<comment> \<open>the class \<^verbatim>\<open>\w\<close> of a JavaScript regular expression: \<^verbatim>\<open>[A-Za-z0-9_]\<close>\<close>
  "is_word_char c =
     (let n = (of_char c :: nat) in
        (48 \<le> n \<and> n \<le> 57) \<or> (65 \<le> n \<and> n \<le> 90) \<or> n = 95 \<or> (97 \<le> n \<and> n \<le> 122))"

definition lower_char :: "char \<Rightarrow> char" where
  \<comment> \<open>A-Z and the upper-case letters of Latin-1 (0xC0..0xDE without the sign 0xD7)\<close>
  "lower_char c =
     (let n = (of_char c :: nat) in
        if (65 \<le> n \<and> n \<le> 90) \<or> (192 \<le> n \<and> n \<le> 222 \<and> n \<noteq> 215)
        then char_of (n + 32) else c)"

definition toLowerCase :: "string \<Rightarrow> string" where
  "toLowerCase s = map lower_char s"

fun is_word_opt :: "char option \<Rightarrow> bool" where
  "is_word_opt None = False"
| "is_word_opt (Some c) = is_word_char c"

definition word_boundary :: "char option \<Rightarrow> char option \<Rightarrow> bool" where
  \<comment> \<open>\<^verbatim>\<open>\b\<close> between the character before a position and the one after it
      (\<open>None\<close> at either end of the string)\<close>
  "word_boundary before after = (is_word_opt before \<noteq> is_word_opt after)"

fun head_opt :: "string \<Rightarrow> char option" where
  "head_opt [] = None"
| "head_opt (c # cs) = Some c"

fun last_opt :: "char option \<Rightarrow> string \<Rightarrow> char option" where
  "last_opt prev [] = prev"
| "last_opt prev (c # cs) = last_opt (Some c) cs"

definition alt_matches_here :: "char option \<Rightarrow> string \<Rightarrow> string \<Rightarrow> bool" where
  \<comment> \<open>\<^verbatim>\<open>\b alt \b\<close> matched at the start of \<open>s\<close>, where \<open>prev\<close> is the character before \<open>s\<close>\<close>
  "alt_matches_here prev s alt =
     (word_boundary prev (head_opt s) \<and> take (length alt) s = alt \<and>
      word_boundary (last_opt prev alt) (head_opt (drop (length alt) s)))"

fun word_alt_from :: "string list \<Rightarrow> char option \<Rightarrow> string \<Rightarrow> bool" where
  "word_alt_from alts prev [] = list_ex (alt_matches_here prev []) alts"
| "word_alt_from alts prev (c # cs) =
     (list_ex (alt_matches_here prev (c # cs)) alts \<or> word_alt_from alts (Some c) cs)"

definition word_alt :: "string list \<Rightarrow> string \<Rightarrow> bool" where
  \<comment> \<open>\<^verbatim>\<open>s.match(/\b(a1|...|an)\b/)\<close> is not null: some alternative occurs somewhere in \<open>s\<close>
      between two word boundaries\<close>
  "word_alt alts s = word_alt_from alts None s"

definition is_quote :: "char \<Rightarrow> bool" where
  \<comment> \<open>the class \<^verbatim>\<open>["']\<close>\<close>
  "is_quote c = (c = CHR 0x22 \<or> c = CHR 0x27)"

definition ci_prefix :: "string \<Rightarrow> string \<Rightarrow> bool" where
  \<comment> \<open>a lower-case literal matched at the start of \<open>s\<close> under the flag \<^verbatim>\<open>i\<close>\<close>
  "ci_prefix lit s = (toLowerCase (take (length lit) s) = lit)"

definition quoted_here :: "string \<Rightarrow> string option" where
  \<comment> \<open>\<^verbatim>\<open> for ["']([^"']+)["']\<close> at the start of \<open>s\<close>; the result is group 1\<close>
  "quoted_here s =
     (if ci_prefix '' for '' s then
        (case drop 5 s of
           [] \<Rightarrow> None
         | q # rest \<Rightarrow>
             if is_quote q then
               (let captured = takeWhile (\<lambda>c. \<not> is_quote c) rest;
                    after = dropWhile (\<lambda>c. \<not> is_quote c) rest
                in if captured \<noteq> [] \<and> after \<noteq> [] then Some captured else None)
             else None)
      else None)"

definition search_here :: "string \<Rightarrow> string option" where
  \<comment> \<open>\<^verbatim>\<open>search(?:ing)? for ["']([^"']+)["']\<close> at the start of \<open>s\<close>: the optional group is
      tried first with \<^verbatim>\<open>ing\<close>, then without\<close>
  "search_here s =
     (if ci_prefix ''search'' s then
        (let r = drop 6 s in
           case (if ci_prefix ''ing'' r then quoted_here (drop 3 r) else None) of
             Some q \<Rightarrow> Some q
           | None \<Rightarrow> quoted_here r)
      else None)"

fun search_match :: "string \<Rightarrow> string option" where
  \<comment> \<open>\<^verbatim>\<open>responseText.match(/search(?:ing)? for ["']([^"']+)["']/i)\<close>: group 1 of the leftmost
      match, \<open>None\<close> for \<^verbatim>\<open>null\<close>\<close>
  "search_match [] = search_here []"
| "search_match (c # cs) =
     (case search_here (c # cs) of Some q \<Rightarrow> Some q | None \<Rightarrow> search_match cs)"

subsection \<open>The assistant's types\<close>

datatype role = User | Assistant

record ConversationMessage =
  role :: role
  content :: string
  timestamp :: int

record ProductContext =
  prod_id :: string
  prod_title :: string
  prod_price :: string
  prod_available :: bool
  prod_tags :: "string list option"

record CartContext =
  cart_productId :: string
  cart_productTitle :: string
  cart_quantity :: int
  cart_price :: string

record AssistantContext =
  ctx_customerId :: "string option"
  ctx_customerName :: "string option"
  ctx_language :: "string option"
  ctx_conversationHistory :: "ConversationMessage list option"
  ctx_currentProducts :: "ProductContext list option"
  ctx_cartItems :: "CartContext list option"
  ctx_funnelStage :: "string option"
  ctx_userPreferences :: "(string \<times> string) list option"

datatype intent =
  product_search | add_to_cart | checkout | general_help | funnel_navigation
  | order_status | unknown

fun intent_name :: "intent \<Rightarrow> string" where
  "intent_name product_search = ''product_search''"
| "intent_name add_to_cart = ''add_to_cart''"
| "intent_name checkout = ''checkout''"
| "intent_name general_help = ''general_help''"
| "intent_name funnel_navigation = ''funnel_navigation''"
| "intent_name order_status = ''order_status''"
| "intent_name unknown = ''unknown''"

record action_data =
  \<comment> \<open>the object \<^verbatim>\<open>data: any\<close> of a suggested action, by the properties the code writes or reads\<close>
  data_query :: "string option"
  data_productId :: "string option"
  data_stage :: "string option"
  data_direction :: "string option"
  data_customerId :: "string option"

definition no_data :: action_data where
  "no_data = \<lparr>data_query = None, data_productId = None, data_stage = None,
              data_direction = None, data_customerId = None\<rparr>"

record suggested_action =
  action_type :: string
  action_payload :: action_data

record AssistantResponse =
  resp_text :: string
  resp_intent :: intent
  resp_confidence :: rat
  resp_suggestedActions :: "suggested_action list option"
  resp_tokensUsed :: "nat option"

subsection \<open>\<^verbatim>\<open>detectIntent\<close> and \<^verbatim>\<open>extractActions\<close>\<close>

definition reply_navigation_words :: "string list" where
  "reply_navigation_words = [''step'', ''stage'', ''funnel'']"

definition detectIntent :: "string \<Rightarrow> string \<Rightarrow> intent" where
  "detectIntent userInput responseText =
     (let input = toLowerCase userInput;
          response = toLowerCase responseText
      in
        if word_alt [''find'', ''search'', ''looking for'', ''show me'', ''need''] input \<and>
           word_alt [''product'', ''item'', ''clothing'', ''shoe'', ''dress'', ''shirt''] input
        then product_search
        else if word_alt [''add'', ''put'', ''place''] input \<and>
                word_alt [''cart'', ''bag'', ''basket''] input
        then add_to_cart
        else if word_alt [''checkout'', ''buy'', ''purchase'', ''pay'', ''order''] input
        then checkout
        else if word_alt [''order'', ''tracking'', ''delivery'', ''shipping'', ''status''] input \<and>
                word_alt [''where'', ''when'', ''track'', ''status''] input
        then order_status
        else if word_alt [''next'', ''continue'', ''proceed'', ''back''] input \<or>
                word_alt reply_navigation_words response
        then funnel_navigation
        else general_help)"

fun extractActions :: "string \<Rightarrow> intent \<Rightarrow> AssistantContext \<Rightarrow> suggested_action list" where
  "extractActions responseText product_search context =
     (case search_match responseText of
        Some q \<Rightarrow> [\<lparr>action_type = ''search_products'',
                     action_payload = no_data\<lparr>data_query := Some q\<rparr>\<rparr>]
      | None \<Rightarrow> [])"
| "extractActions responseText add_to_cart context =
     (case ctx_currentProducts context of
        Some (p # ps) \<Rightarrow> [\<lparr>action_type = ''add_to_cart'',
                            action_payload = no_data\<lparr>data_productId := Some (prod_id p)\<rparr>\<rparr>]
      | _ \<Rightarrow> [])"
| "extractActions responseText checkout context =
     [\<lparr>action_type = ''navigate_to_checkout'', action_payload = no_data\<rparr>]"
| "extractActions responseText funnel_navigation context =
     [\<lparr>action_type = ''navigate_funnel'',
       action_payload = no_data\<lparr>data_direction := Some ''next''\<rparr>\<rparr>]"
| "extractActions responseText order_status context =
     [\<lparr>action_type = ''show_orders'',
       action_payload = no_data\<lparr>data_customerId := ctx_customerId context\<rparr>\<rparr>]"
| "extractActions responseText general_help context = []"
| "extractActions responseText unknown context = []"

subsection \<open>The session record and the document store\<close>

datatype status = Active | Paused | Completed | Abandoned

datatype deviceType = Web | Mobile | Phone

record session_metadata =
  deviceType :: deviceType
  userAgent :: "string option"
  ipAddress :: "string option"
  totalMessages :: nat
  totalDuration :: "int option"

record session_analytics =
  intents :: "string \<rightharpoonup> nat"
  productsDiscussed :: "string list"
  conversionsAttempted :: nat
  satisfactionScore :: "rat option"

record VoiceSession =
  sessionId :: string
  customerId :: "string option"
  startTime :: int
  endTime :: "int option"
  status :: status
  language :: string
  conversationHistory :: "ConversationMessage list"
  session_context :: AssistantContext
  metadata :: session_metadata
  analytics :: session_analytics

datatype exn =
  Error string \<comment> \<open>\<^verbatim>\<open>new Error(message)\<close> thrown by the repository's code\<close>
  | FirestoreNotFound \<comment> \<open>\<^verbatim>\<open>DocumentReference.update\<close> on a document that does not exist\<close>
  | FirestoreUndefinedValue \<comment> \<open>a write whose data has a property of value \<^verbatim>\<open>undefined\<close>\<close>

fun exn_message :: "exn \<Rightarrow> string" where
  "exn_message (Error m) = m"
| "exn_message FirestoreNotFound = ''NOT_FOUND: No document to update''"
| "exn_message FirestoreUndefinedValue = ''Cannot use undefined as a Firestore value''"

type_synonym store = "(string \<times> VoiceSession) list"

definition doc_set :: "store \<Rightarrow> string \<Rightarrow> VoiceSession \<Rightarrow> store" where
  \<comment> \<open>\<^verbatim>\<open>collection.doc(id).set(document)\<close> of a document without undefined properties:
      creates or replaces\<close>
  "doc_set st sid s = AList.update sid s st"

definition getVoiceSession :: "store \<Rightarrow> string \<Rightarrow> VoiceSession option" where
  "getVoiceSession st sid = map_of st sid"

definition doc_update ::
  "store \<Rightarrow> string \<Rightarrow> (VoiceSession \<Rightarrow> VoiceSession) \<Rightarrow> exn + store" where
  \<comment> \<open>\<^verbatim>\<open>collection.doc(id).update(fields)\<close>: the fields are written into the existing
      document; the call is rejected when there is none\<close>
  "doc_update st sid f =
     (case map_of st sid of
        None \<Rightarrow> Inl FirestoreNotFound
      | Some s \<Rightarrow> Inr (AList.update sid (f s) st))"

fun truthy :: "string option \<Rightarrow> bool" where
  \<comment> \<open>a string that may be \<^verbatim>\<open>undefined\<close> or \<^verbatim>\<open>null\<close>, used as a condition\<close>
  "truthy None = False"
| "truthy (Some s) = (s \<noteq> [])"

definition or_else :: "string option \<Rightarrow> string \<Rightarrow> string" where
  \<comment> \<open>\<^verbatim>\<open>a || b\<close>\<close>
  "or_else a b = (case a of Some s \<Rightarrow> (if s \<noteq> [] then s else b) | None \<Rightarrow> b)"

record create_data =
  new_customerId :: "string option"
  new_language :: "string option"
  new_deviceType :: deviceType
  new_userAgent :: "string option"
  new_ipAddress :: "string option"

definition createVoiceSession ::
  "string \<Rightarrow> int \<Rightarrow> create_data \<Rightarrow> store \<Rightarrow> exn + VoiceSession \<times> store" where
  \<comment> \<open>\<open>fresh\<close> is what \<^verbatim>\<open>generateSessionId()\<close> returns, \<open>now\<close> the clock. The object literal
      has the properties \<^verbatim>\<open>customerId\<close>, \<^verbatim>\<open>context.customerId\<close>, \<^verbatim>\<open>metadata.userAgent\<close> and
      \<^verbatim>\<open>metadata.ipAddress\<close> whatever their values, so \<^verbatim>\<open>set\<close> rejects it when one of the three
      inputs is undefined (\<^verbatim>\<open>endTime\<close>, \<^verbatim>\<open>totalDuration\<close> and \<^verbatim>\<open>satisfactionScore\<close> are not
      properties of the literal)\<close>
  "createVoiceSession fresh now d st =
     (let session =
        \<lparr>sessionId = fresh,
         customerId = new_customerId d,
         startTime = now,
         endTime = None,
         status = Active,
         language = or_else (new_language d) ''en-US'',
         conversationHistory = [],
         session_context =
           \<lparr>ctx_customerId = new_customerId d,
            ctx_customerName = None,
            ctx_language = Some (or_else (new_language d) ''en-US''),
            ctx_conversationHistory = Some [],
            ctx_currentProducts = None,
            ctx_cartItems = None,
            ctx_funnelStage = None,
            ctx_userPreferences = None\<rparr>,
         metadata =
           \<lparr>deviceType = new_deviceType d,
            userAgent = new_userAgent d,
            ipAddress = new_ipAddress d,
            totalMessages = 0,
            totalDuration = None\<rparr>,
         analytics =
           \<lparr>intents = Map.empty,
            productsDiscussed = [],
            conversionsAttempted = 0,
            satisfactionScore = None\<rparr>\<rparr>
      in if new_customerId d = None \<or> new_userAgent d = None \<or> new_ipAddress d = None
         then Inl FirestoreUndefinedValue
         else Inr (session, doc_set st (sessionId session) session))"

definition getConversationHistory :: "store \<Rightarrow> string \<Rightarrow> ConversationMessage list" where
  "getConversationHistory st sid =
     (case getVoiceSession st sid of Some s \<Rightarrow> conversationHistory s | None \<Rightarrow> [])"

definition getTotalMessages :: "store \<Rightarrow> string \<Rightarrow> nat" where
  "getTotalMessages st sid =
     (case getVoiceSession st sid of Some s \<Rightarrow> totalMessages (metadata s) | None \<Rightarrow> 0)"

definition count_or_zero :: "nat option \<Rightarrow> nat" where
  \<comment> \<open>\<^verbatim>\<open>intents[intent] || 0\<close>\<close>
  "count_or_zero c = (case c of Some n \<Rightarrow> n | None \<Rightarrow> 0)"

definition addMessageToSession ::
  "store \<Rightarrow> string \<Rightarrow> ConversationMessage \<Rightarrow> string option \<Rightarrow> exn + store" where
  "addMessageToSession st sid message intent =
     (let history = getConversationHistory st sid @ [message];
          total = getTotalMessages st sid + 1;
          tracked =
            (if truthy intent then
               (case getVoiceSession st sid of
                  Some session \<Rightarrow>
                    Some ((analytics session)
                      \<lparr>intents := (intents (analytics session))
                         (the intent \<mapsto> count_or_zero (intents (analytics session) (the intent)) + 1)\<rparr>)
                | None \<Rightarrow> None)
             else None)
      in doc_update st sid
           (\<lambda>s. s\<lparr>conversationHistory := history,
                  metadata := (metadata s)\<lparr>totalMessages := total\<rparr>,
                  analytics := (case tracked of Some a \<Rightarrow> a | None \<Rightarrow> analytics s)\<rparr>))"

record context_patch =
  \<comment> \<open>\<^verbatim>\<open>Partial<AssistantContext>\<close>: for each property \<open>None\<close> when the object does not have
      it, \<open>Some None\<close> when it has it with the value \<^verbatim>\<open>undefined\<close>, \<open>Some (Some v)\<close> otherwise\<close>
  patch_customerId :: "string option option"
  patch_customerName :: "string option option"
  patch_language :: "string option option"
  patch_conversationHistory :: "ConversationMessage list option option"
  patch_currentProducts :: "ProductContext list option option"
  patch_cartItems :: "CartContext list option option"
  patch_funnelStage :: "string option option"
  patch_userPreferences :: "(string \<times> string) list option option"

definition no_patch :: context_patch where
  "no_patch =
     \<lparr>patch_customerId = None, patch_customerName = None, patch_language = None,
      patch_conversationHistory = None, patch_currentProducts = None, patch_cartItems = None,
      patch_funnelStage = None, patch_userPreferences = None\<rparr>"

definition patch_has_undefined :: "context_patch \<Rightarrow> bool" where
  "patch_has_undefined p =
     (patch_customerId p = Some None \<or> patch_customerName p = Some None \<or>
      patch_language p = Some None \<or> patch_conversationHistory p = Some None \<or>
      patch_currentProducts p = Some None \<or> patch_cartItems p = Some None \<or>
      patch_funnelStage p = Some None \<or> patch_userPreferences p = Some None)"

definition spread :: "'a option \<Rightarrow> 'a option option \<Rightarrow> 'a option" where
  \<comment> \<open>one property of \<^verbatim>\<open>{...stored, ...patch}\<close>\<close>
  "spread stored patched = (case patched of Some v \<Rightarrow> v | None \<Rightarrow> stored)"

definition merge_context :: "AssistantContext \<Rightarrow> context_patch \<Rightarrow> AssistantContext" where
  \<comment> \<open>\<^verbatim>\<open>{...session.context, ...context}\<close>\<close>
  "merge_context c p =
     \<lparr>ctx_customerId = spread (ctx_customerId c) (patch_customerId p),
      ctx_customerName = spread (ctx_customerName c) (patch_customerName p),
      ctx_language = spread (ctx_language c) (patch_language p),
      ctx_conversationHistory = spread (ctx_conversationHistory c) (patch_conversationHistory p),
      ctx_currentProducts = spread (ctx_currentProducts c) (patch_currentProducts p),
      ctx_cartItems = spread (ctx_cartItems c) (patch_cartItems p),
      ctx_funnelStage = spread (ctx_funnelStage c) (patch_funnelStage p),
      ctx_userPreferences = spread (ctx_userPreferences c) (patch_userPreferences p)\<rparr>"

definition updateSessionContext :: "store \<Rightarrow> string \<Rightarrow> context_patch \<Rightarrow> exn + store" where
  \<comment> \<open>the stored context has no undefined property, so the merged one has one exactly when
      the patch has\<close>
  "updateSessionContext st sid patch =
     (case getVoiceSession st sid of
        None \<Rightarrow> Inl (Error ''Session not found'')
      | Some session \<Rightarrow>
          if patch_has_undefined patch then Inl FirestoreUndefinedValue
          else doc_update st sid
                 (\<lambda>s. s\<lparr>session_context := merge_context (session_context session) patch\<rparr>))"

definition number_truthy :: "rat option \<Rightarrow> bool" where
  "number_truthy x = (case x of Some r \<Rightarrow> r \<noteq> 0 | None \<Rightarrow> False)"

definition endVoiceSession ::
  "store \<Rightarrow> string \<Rightarrow> rat option \<Rightarrow> int \<Rightarrow> int \<Rightarrow> exn + store" where
  \<comment> \<open>\<open>t_duration\<close> and \<open>t_end\<close> are the two readings of the clock\<close>
  "endVoiceSession st sid score t_duration t_end =
     (case getVoiceSession st sid of
        None \<Rightarrow> Inr st
      | Some session \<Rightarrow>
          (let duration = (t_duration - startTime session) div 1000
           in doc_update st sid
                (\<lambda>s. s\<lparr>status := Completed,
                       endTime := Some t_end,
                       metadata := (metadata s)\<lparr>totalDuration := Some duration\<rparr>,
                       analytics :=
                         (if number_truthy score
                          then (analytics s)\<lparr>satisfactionScore := score\<rparr>
                          else analytics s)\<rparr>)))"

definition trackProductDiscussion :: "store \<Rightarrow> string \<Rightarrow> string \<Rightarrow> exn + store" where
  "trackProductDiscussion st sid productId =
     (case getVoiceSession st sid of
        None \<Rightarrow> Inr st
      | Some session \<Rightarrow>
          (let discussed = productsDiscussed (analytics session)
           in if productId \<notin> set discussed
              then doc_update st sid
                     (\<lambda>s. s\<lparr>analytics :=
                              (analytics s)\<lparr>productsDiscussed := discussed @ [productId]\<rparr>\<rparr>)
              else Inr st))"

definition trackConversionAttempt :: "store \<Rightarrow> string \<Rightarrow> exn + store" where
  "trackConversionAttempt st sid =
     (case getVoiceSession st sid of
        None \<Rightarrow> Inr st
      | Some session \<Rightarrow>
          doc_update st sid
            (\<lambda>s. s\<lparr>analytics :=
                     (analytics s)\<lparr>conversionsAttempted :=
                                     conversionsAttempted (analytics session) + 1\<rparr>\<rparr>))"

definition pauseVoiceSession :: "store \<Rightarrow> string \<Rightarrow> exn + store" where
  "pauseVoiceSession st sid = doc_update st sid (\<lambda>s. s\<lparr>status := Paused\<rparr>)"

definition resumeVoiceSession :: "store \<Rightarrow> string \<Rightarrow> exn + store" where
  "resumeVoiceSession st sid = doc_update st sid (\<lambda>s. s\<lparr>status := Active\<rparr>)"

definition is_abandoned_candidate :: "int \<Rightarrow> VoiceSession \<Rightarrow> bool" where
  \<comment> \<open>the query: \<^verbatim>\<open>status == 'active'\<close> and \<^verbatim>\<open>startTime < oneHourAgo\<close>\<close>
  "is_abandoned_candidate now s = (status s = Active \<and> startTime s < now - 60 * 60 * 1000)"

definition cleanupAbandonedSessions :: "int \<Rightarrow> store \<Rightarrow> nat \<times> store" where
  "cleanupAbandonedSessions now st =
     (length (filter (\<lambda>(k, s). is_abandoned_candidate now s) st),
      map (\<lambda>(k, s). if is_abandoned_candidate now s then (k, s\<lparr>status := Abandoned\<rparr>) else (k, s))
        st)"

subsection \<open>Speech to text: \<^verbatim>\<open>transcribeAudio\<close>\<close>

record SpeechAlternative =
  alt_transcript :: "string option"
  alt_confidence :: "rat option"

type_synonym audio = "nat list"

type_synonym recognizer = "audio \<Rightarrow> string \<Rightarrow> exn + SpeechAlternative list list option"
  \<comment> \<open>\<^verbatim>\<open>client.recognize\<close> of the speech service, by audio and language code: it throws, or
      returns \<^verbatim>\<open>response.results\<close> (possibly undefined), each result being its list of
      alternatives\<close>

record TranscriptionResult =
  transcript :: string
  confidence :: rat
  languageCode :: string

fun join_lines :: "string list \<Rightarrow> string" where
  \<comment> \<open>\<^verbatim>\<open>parts.join('\n')\<close>\<close>
  "join_lines [] = []"
| "join_lines [x] = x"
| "join_lines (x # y # ys) = x @ [CHR 0x0A] @ join_lines (y # ys)"

definition first_transcript :: "SpeechAlternative list \<Rightarrow> string" where
  \<comment> \<open>\<^verbatim>\<open>result.alternatives?.[0]?.transcript\<close>, which \<^verbatim>\<open>join\<close> prints as the empty string
      when it is undefined\<close>
  "first_transcript alts =
     (case alts of [] \<Rightarrow> [] | a # _ \<Rightarrow> (case alt_transcript a of Some t \<Rightarrow> t | None \<Rightarrow> []))"

definition first_confidence :: "SpeechAlternative list list \<Rightarrow> rat" where
  \<comment> \<open>\<^verbatim>\<open>response.results?.[0]?.alternatives?.[0]?.confidence || 0\<close>\<close>
  "first_confidence results =
     (case results of
        (a # _) # _ \<Rightarrow> (case alt_confidence a of Some c \<Rightarrow> c | None \<Rightarrow> 0)
      | _ \<Rightarrow> 0)"

definition transcribeAudio ::
  "recognizer \<Rightarrow> audio \<Rightarrow> string option \<Rightarrow> exn + TranscriptionResult" where
  "transcribeAudio recognize audioBuffer config_languageCode =
     (case recognize audioBuffer (or_else config_languageCode ''en-US'') of
        Inl e \<Rightarrow> Inl (Error (''Failed to transcribe audio: '' @ exn_message e))
      | Inr response_results \<Rightarrow>
          Inr \<lparr>transcript =
                 (case response_results of
                    Some results \<Rightarrow> join_lines (map first_transcript results)
                  | None \<Rightarrow> []),
               confidence =
                 (case response_results of Some results \<Rightarrow> first_confidence results | None \<Rightarrow> 0),
               languageCode = or_else config_languageCode ''en-US''\<rparr>)"

subsection \<open>The assistant engine: \<^verbatim>\<open>generateAssistantResponse\<close>\<close>

record model_reply =
  reply_text :: "string option"
    \<comment> \<open>\<^verbatim>\<open>response.candidates?.[0]?.content?.parts?.[0]?.text\<close>\<close>
  reply_totalTokenCount :: "nat option"

type_synonym chat_model = "AssistantContext \<Rightarrow> string \<Rightarrow> exn + model_reply"
  \<comment> \<open>\<^verbatim>\<open>model.startChat(...).sendMessage(userInput)\<close>: the system prompt and the chat history
      are built from the context alone, so the generative model is a function of the context
      and the user input that throws or replies; building the client (\<^verbatim>\<open>getModel\<close>) and the
      prompt, which the code does before its \<^verbatim>\<open>try\<close>, is taken not to throw\<close>

definition fallback_text :: string where
  "fallback_text =
     ''I'm having trouble processing that right now. Could you try asking in a different way?''"

definition generateAssistantResponse ::
  "chat_model \<Rightarrow> string \<Rightarrow> AssistantContext \<Rightarrow> AssistantResponse" where
  "generateAssistantResponse model userInput context =
     (case model context userInput of
        Inr response \<Rightarrow>
          (let responseText = (case reply_text response of Some t \<Rightarrow> t | None \<Rightarrow> []);
               intent = detectIntent userInput responseText;
               suggested = extractActions responseText intent context
           in \<lparr>resp_text = responseText,
               resp_intent = intent,
               resp_confidence = 85 / 100,
               resp_suggestedActions = Some suggested,
               resp_tokensUsed = reply_totalTokenCount response\<rparr>)
      | Inl error \<Rightarrow>
          \<lparr>resp_text = fallback_text,
           resp_intent = unknown,
           resp_confidence = 0,
           resp_suggestedActions = None,
           resp_tokensUsed = None\<rparr>)"

subsection \<open>The route \<^verbatim>\<open>api.voice.process-audio.tsx\<close>\<close>

definition handle_action :: "string \<Rightarrow> suggested_action \<Rightarrow> store \<Rightarrow> exn + store" where
  \<comment> \<open>the body of the loop of \<^verbatim>\<open>processSuggestedActions\<close>: the \<^verbatim>\<open>switch\<close> on
      \<^verbatim>\<open>action.type\<close>, which has no default case\<close>
  "handle_action sid a st =
     (if action_type a = ''add_to_cart'' then
        (if truthy (data_productId (action_payload a))
         then trackProductDiscussion st sid (the (data_productId (action_payload a)))
         else Inr st)
      else if action_type a = ''search_products'' then Inr st
      else if action_type a = ''navigate_funnel'' then
        updateSessionContext st sid
          (no_patch\<lparr>patch_funnelStage := Some (data_stage (action_payload a))\<rparr>)
      else Inr st)"

fun processSuggestedActions ::
  "string \<Rightarrow> suggested_action list \<Rightarrow> store \<Rightarrow> (exn + unit) \<times> store" where
  \<comment> \<open>the loop has no \<^verbatim>\<open>try\<close>: an exception of a handler leaves it, with the store as the
      handlers before it left it\<close>
  "processSuggestedActions sid [] st = (Inr (), st)"
| "processSuggestedActions sid (a # as) st =
     (case handle_action sid a st of
        Inl e \<Rightarrow> (Inl e, st)
      | Inr st' \<Rightarrow> processSuggestedActions sid as st')"

record customer_data =
  cust_firstName :: "string option"
  cust_cart_lines :: "CartContext list option"

record turn_env =
  recognize :: recognizer
  customer_query :: "exn + customer_data option"
    \<comment> \<open>\<^verbatim>\<open>context.customerAccount.query(getCart)\<close>: throws, or \<^verbatim>\<open>data?.customer\<close>\<close>
  chat :: chat_model
  webhook :: "exn + unit"
    \<comment> \<open>\<^verbatim>\<open>triggerWebhook(...)\<close>, whose result the route does not read\<close>
  clock_user :: int
  clock_assistant :: int

definition buildAssistantContext :: "turn_env \<Rightarrow> VoiceSession \<Rightarrow> AssistantContext" where
  "buildAssistantContext env session =
     (let assistantContext =
        \<lparr>ctx_customerId = customerId session,
         ctx_customerName = None,
         ctx_language = Some (language session),
         ctx_conversationHistory = Some (conversationHistory session),
         ctx_currentProducts = None,
         ctx_cartItems = None,
         ctx_funnelStage = ctx_funnelStage (session_context session),
         ctx_userPreferences = None\<rparr>
      in if truthy (customerId session) then
           (case customer_query env of
              Inr (Some customer) \<Rightarrow>
                assistantContext\<lparr>ctx_customerName := cust_firstName customer,
                                 ctx_cartItems := cust_cart_lines customer\<rparr>
            | Inr None \<Rightarrow> assistantContext
            | Inl error \<Rightarrow> assistantContext)
         else assistantContext)"

record turn_request =
  req_method :: string
  req_audio :: "audio option"
  req_sessionId :: "string option"
  req_language :: "string option"

record turn_response =
  out_transcript :: string
  out_confidence :: rat
  out_text :: string
  out_intent :: intent
  out_actions :: "suggested_action list option"
  out_tokensUsed :: "nat option"

datatype http_error =
  MethodNotAllowed \<comment> \<open>405 \<^verbatim>\<open>Method not allowed\<close>\<close>
  | MissingInput \<comment> \<open>400 \<^verbatim>\<open>Missing audio or sessionId\<close>, \<^verbatim>\<open>Missing sessionId\<close>\<close>
  | SessionNotFound \<comment> \<open>404 \<^verbatim>\<open>Session not found\<close>\<close>
  | EmptyTranscript \<comment> \<open>400 \<^verbatim>\<open>Could not transcribe audio\<close>\<close>
  | InternalError string \<comment> \<open>500 with the message of the exception the route caught\<close>

definition absorbed :: "exn + unit \<Rightarrow> 'a \<Rightarrow> 'a" where
  \<comment> \<open>\<^verbatim>\<open>try { await f() } catch (e) { console.warn(e) }\<close> followed by a result\<close>
  "absorbed outcome result = (case outcome of Inl e \<Rightarrow> result | Inr u \<Rightarrow> result)"

definition turn_steps ::
  "turn_env \<Rightarrow> string \<Rightarrow> VoiceSession \<Rightarrow> TranscriptionResult \<Rightarrow> store \<Rightarrow>
   (exn + turn_response) \<times> store" where
  \<comment> \<open>steps 2 to 8 of the route (lines 55 to 119); \<open>session\<close> is the document as the route
      read it before step 1\<close>
  "turn_steps env sid session transcription st =
     (case addMessageToSession st sid
             \<lparr>role = User, content = transcript transcription, timestamp = clock_user env\<rparr> None of
        Inl e \<Rightarrow> (Inl e, st)
      | Inr st1 \<Rightarrow>
          (let assistantContext = buildAssistantContext env session;
               aiResponse =
                 generateAssistantResponse (chat env) (transcript transcription) assistantContext
           in case addMessageToSession st1 sid
                     \<lparr>role = Assistant, content = resp_text aiResponse,
                      timestamp = clock_assistant env\<rparr>
                     (Some (intent_name (resp_intent aiResponse))) of
                Inl e \<Rightarrow> (Inl e, st1)
              | Inr st2 \<Rightarrow>
                  (case processSuggestedActions sid
                          (case resp_suggestedActions aiResponse of Some as \<Rightarrow> as | None \<Rightarrow> [])
                          st2 of
                     (Inl e, st3) \<Rightarrow> (Inl e, st3)
                   | (Inr u, st3) \<Rightarrow>
                       (case (if resp_intent aiResponse = add_to_cart \<or>
                                 resp_intent aiResponse = checkout
                              then trackConversionAttempt st3 sid else Inr st3) of
                          Inl e \<Rightarrow> (Inl e, st3)
                        | Inr st4 \<Rightarrow>
                            (Inr (absorbed (webhook env)
                                   \<lparr>out_transcript = transcript transcription,
                                    out_confidence = confidence transcription,
                                    out_text = resp_text aiResponse,
                                    out_intent = resp_intent aiResponse,
                                    out_actions = resp_suggestedActions aiResponse,
                                    out_tokensUsed = resp_tokensUsed aiResponse\<rparr>),
                             st4)))))"

definition process_audio_action ::
  "turn_env \<Rightarrow> turn_request \<Rightarrow> store \<Rightarrow> (http_error + turn_response) \<times> store" where
  "process_audio_action env req st =
     (if req_method req \<noteq> ''POST'' then (Inl MethodNotAllowed, st)
      else
        (case req_audio req of
           None \<Rightarrow> (Inl MissingInput, st)
         | Some audioFile \<Rightarrow>
             if \<not> truthy (req_sessionId req) then (Inl MissingInput, st)
             else
               (let sid = the (req_sessionId req) in
                  case getVoiceSession st sid of
                    None \<Rightarrow> (Inl SessionNotFound, st)
                  | Some session \<Rightarrow>
                      (case transcribeAudio (recognize env) audioFile
                              (Some (or_else (req_language req) (language session))) of
                         Inl e \<Rightarrow> (Inl (InternalError (exn_message e)), st)
                       | Inr transcription \<Rightarrow>
                           if transcript transcription = [] then (Inl EmptyTranscript, st)
                           else
                             (case turn_steps env sid session transcription st of
                                (Inl e, st') \<Rightarrow> (Inl (InternalError (exn_message e)), st')
                              | (Inr response, st') \<Rightarrow> (Inr response, st'))))))"

subsection \<open>The route \<^verbatim>\<open>api.voice.end-session.tsx\<close>\<close>

record conversation_summary =
  sum_summary :: string
  sum_keyTopics :: "string list"
  sum_outcome :: string

record end_env =
  summarize :: "ConversationMessage list \<Rightarrow> exn + conversation_summary"
    \<comment> \<open>\<^verbatim>\<open>summarizeConversation\<close>, a call of the generative model\<close>
  end_webhook :: "exn + unit"
  clock_duration :: int
  clock_end :: int

record end_request =
  end_method :: string
  end_sessionId :: "string option"
  end_satisfactionScore :: "rat option"

record analytics_snapshot =
  snap_totalMessages :: nat
  snap_intents :: "string \<rightharpoonup> nat"
  snap_productsDiscussed :: "string list"
  snap_conversionsAttempted :: nat

record end_response =
  end_summary :: "conversation_summary option"
  end_analytics :: analytics_snapshot

definition end_session_action ::
  "end_env \<Rightarrow> end_request \<Rightarrow> store \<Rightarrow> (http_error + end_response) \<times> store" where
  "end_session_action env req st =
     (if end_method req \<noteq> ''POST'' then (Inl MethodNotAllowed, st)
      else if \<not> truthy (end_sessionId req) then (Inl MissingInput, st)
      else
        (let sid = the (end_sessionId req) in
           case getVoiceSession st sid of
             None \<Rightarrow> (Inl SessionNotFound, st)
           | Some session \<Rightarrow>
               (let summary =
                      (if length (conversationHistory session) > 0
                       then (case summarize env (conversationHistory session) of
                               Inr s \<Rightarrow> Some s
                             | Inl error \<Rightarrow> None)
                       else None)
                in case endVoiceSession st sid (end_satisfactionScore req)
                          (clock_duration env) (clock_end env) of
                     Inl e \<Rightarrow> (Inl (InternalError (exn_message e)), st)
                   | Inr st' \<Rightarrow>
                       (Inr (absorbed (end_webhook env)
                              \<lparr>end_summary = summary,
                               end_analytics =
                                 \<lparr>snap_totalMessages = totalMessages (metadata session),
                                  snap_intents = intents (analytics session),
                                  snap_productsDiscussed = productsDiscussed (analytics session),
                                  snap_conversionsAttempted =
                                    conversionsAttempted (analytics session)\<rparr>\<rparr>),
                        st'))))"

subsection \<open>Notions used to state the properties\<close>

definition session_inv :: "VoiceSession \<Rightarrow> bool" where
  \<comment> \<open>\<^verbatim>\<open>conversationHistory.length == metadata.totalMessages\<close>\<close>
  "session_inv s = (length (conversationHistory s) = totalMessages (metadata s))"

definition store_inv :: "store \<Rightarrow> bool" where
  "store_inv st = (\<forall>k s. getVoiceSession st k = Some s \<longrightarrow> session_inv s)"

definition snapshot_of :: "VoiceSession \<Rightarrow> analytics_snapshot" where
  \<comment> \<open>the \<^verbatim>\<open>analytics\<close> object of the end-session response\<close>
  "snapshot_of s =
     \<lparr>snap_totalMessages = totalMessages (metadata s),
      snap_intents = intents (analytics s),
      snap_productsDiscussed = productsDiscussed (analytics s),
      snap_conversionsAttempted = conversionsAttempted (analytics s)\<rparr>"

definition ended :: "end_env \<Rightarrow> rat option \<Rightarrow> VoiceSession \<Rightarrow> VoiceSession" where
  \<comment> \<open>the document after the update of \<^verbatim>\<open>endVoiceSession\<close>\<close>
  "ended env score s =
     s\<lparr>status := Completed,
       endTime := Some (clock_end env),
       metadata := (metadata s)\<lparr>totalDuration := Some ((clock_duration env - startTime s) div 1000)\<rparr>,
       analytics := (if number_truthy score then (analytics s)\<lparr>satisfactionScore := score\<rparr>
                     else analytics s)\<rparr>"

definition appended :: "ConversationMessage \<Rightarrow> string option \<Rightarrow> VoiceSession \<Rightarrow> VoiceSession" where
  \<comment> \<open>the document after the update of \<^verbatim>\<open>addMessageToSession\<close>\<close>
  "appended m i s =
     s\<lparr>conversationHistory := conversationHistory s @ [m],
       metadata := (metadata s)\<lparr>totalMessages := totalMessages (metadata s) + 1\<rparr>,
       analytics :=
         (if truthy i
          then (analytics s)\<lparr>intents := (intents (analytics s))
                 (the i \<mapsto> count_or_zero (intents (analytics s) (the i)) + 1)\<rparr>
          else analytics s)\<rparr>"

definition kept :: "VoiceSession \<Rightarrow> VoiceSession \<Rightarrow> bool" where
  \<comment> \<open>\<open>s'\<close> is \<open>s\<close> up to the context snapshot, the products discussed and the number of
      conversion attempts, which action handlers and conversion tracking write\<close>
  "kept s s' =
     (sessionId s' = sessionId s \<and> customerId s' = customerId s \<and>
      startTime s' = startTime s \<and> endTime s' = endTime s \<and> status s' = status s \<and>
      language s' = language s \<and> conversationHistory s' = conversationHistory s \<and>
      metadata s' = metadata s \<and> intents (analytics s') = intents (analytics s) \<and>
      satisfactionScore (analytics s') = satisfactionScore (analytics s))"

definition user_message :: "turn_env \<Rightarrow> TranscriptionResult \<Rightarrow> ConversationMessage" where
  "user_message env tr = \<lparr>role = User, content = transcript tr, timestamp = clock_user env\<rparr>"

definition engine_response ::
  "turn_env \<Rightarrow> VoiceSession \<Rightarrow> TranscriptionResult \<Rightarrow> AssistantResponse" where
  "engine_response env session tr =
     generateAssistantResponse (chat env) (transcript tr) (buildAssistantContext env session)"

definition assistant_message :: "turn_env \<Rightarrow> AssistantResponse \<Rightarrow> ConversationMessage" where
  "assistant_message env ai =
     \<lparr>role = Assistant, content = resp_text ai, timestamp = clock_assistant env\<rparr>"

definition turn_result :: "TranscriptionResult \<Rightarrow> AssistantResponse \<Rightarrow> turn_response" where
  "turn_result tr ai =
     \<lparr>out_transcript = transcript tr, out_confidence = confidence tr, out_text = resp_text ai,
      out_intent = resp_intent ai, out_actions = resp_suggestedActions ai,
      out_tokensUsed = resp_tokensUsed ai\<rparr>"

definition discussed :: "string \<Rightarrow> VoiceSession \<Rightarrow> VoiceSession" where
  \<comment> \<open>the document after the update of \<^verbatim>\<open>trackProductDiscussion\<close>\<close>
  "discussed p s =
     s\<lparr>analytics := (analytics s)\<lparr>productsDiscussed := productsDiscussed (analytics s) @ [p]\<rparr>\<rparr>"

definition at_stage :: "string option \<Rightarrow> VoiceSession \<Rightarrow> VoiceSession" where
  \<comment> \<open>the document after \<^verbatim>\<open>updateSessionContext(sessionId, {funnelStage})\<close>\<close>
  "at_stage g s = s\<lparr>session_context := (session_context s)\<lparr>ctx_funnelStage := g\<rparr>\<rparr>"

definition converted :: "VoiceSession \<Rightarrow> VoiceSession" where
  \<comment> \<open>the document after the update of \<^verbatim>\<open>trackConversionAttempt\<close>\<close>
  "converted s =
     s\<lparr>analytics := (analytics s)\<lparr>conversionsAttempted := conversionsAttempted (analytics s) + 1\<rparr>\<rparr>"

definition session_handle :: "suggested_action \<Rightarrow> VoiceSession \<Rightarrow> exn + VoiceSession" where
  \<comment> \<open>what \<open>handle_action\<close> does to the document of its session, when there is one\<close>
  "session_handle a s =
     (if action_type a = ''add_to_cart'' then
        (if truthy (data_productId (action_payload a)) \<and>
            the (data_productId (action_payload a)) \<notin> set (productsDiscussed (analytics s))
         then Inr (discussed (the (data_productId (action_payload a))) s)
         else Inr s)
      else if action_type a = ''search_products'' then Inr s
      else if action_type a = ''navigate_funnel'' then
        (if data_stage (action_payload a) = None then Inl FirestoreUndefinedValue
         else Inr (at_stage (data_stage (action_payload a)) s))
      else Inr s)"

fun session_dispatch :: "suggested_action list \<Rightarrow> VoiceSession \<Rightarrow> (exn + unit) \<times> VoiceSession" where
  "session_dispatch [] s = (Inr (), s)"
| "session_dispatch (a # as) s =
     (case session_handle a s of
        Inl e \<Rightarrow> (Inl e, s)
      | Inr s' \<Rightarrow> session_dispatch as s')"

definition turn_session ::
  "turn_env \<Rightarrow> TranscriptionResult \<Rightarrow> VoiceSession \<Rightarrow> (exn + turn_response) \<times> VoiceSession" where
  \<comment> \<open>what \<open>turn_steps\<close> answers and does to the document of its session\<close>
  "turn_session env tr s =
     (let ai = engine_response env s tr;
          s2 = appended (assistant_message env ai) (Some (intent_name (resp_intent ai)))
                 (appended (user_message env tr) None s);
          d = session_dispatch (case resp_suggestedActions ai of Some as \<Rightarrow> as | None \<Rightarrow> []) s2
      in case fst d of
           Inl e \<Rightarrow> (Inl e, snd d)
         | Inr u \<Rightarrow>
             (Inr (turn_result tr ai),
              if resp_intent ai = add_to_cart \<or> resp_intent ai = checkout
              then converted (snd d) else snd d))"

definition route_on ::
  "turn_env \<Rightarrow> turn_request \<Rightarrow> VoiceSession \<Rightarrow> (http_error + turn_response) \<times> VoiceSession" where
  \<comment> \<open>what \<open>process_audio_action\<close> answers and does to the document of the session the
      request names\<close>
  "route_on env req s =
     (if req_method req \<noteq> ''POST'' then (Inl MethodNotAllowed, s)
      else
        (case req_audio req of
           None \<Rightarrow> (Inl MissingInput, s)
         | Some audioFile \<Rightarrow>
             if \<not> truthy (req_sessionId req) then (Inl MissingInput, s)
             else
               (case transcribeAudio (recognize env) audioFile
                       (Some (or_else (req_language req) (language s))) of
                  Inl e \<Rightarrow> (Inl (InternalError (exn_message e)), s)
                | Inr tr \<Rightarrow>
                    if transcript tr = [] then (Inl EmptyTranscript, s)
                    else
                      (case fst (turn_session env tr s) of
                         Inl e \<Rightarrow> (Inl (InternalError (exn_message e)), snd (turn_session env tr s))
                       | Inr r \<Rightarrow> (Inr r, snd (turn_session env tr s))))))"

subsection \<open>Concrete sessions, requests and collaborators\<close>

definition shopper_web :: create_data where
  "shopper_web =
     \<lparr>new_customerId = Some ''gid://shopify/Customer/7'', new_language = Some ''en-US'',
      new_deviceType = Web, new_userAgent = Some ''Mozilla/5.0'',
      new_ipAddress = Some ''203.0.113.7''\<rparr>"

definition active_session :: VoiceSession where
  "active_session = fst (projr (createVoiceSession ''voice_1_abc'' 0 shopper_web []))"

definition active_store :: store where
  "active_store = snd (projr (createVoiceSession ''voice_1_abc'' 0 shopper_web []))"

definition completed_session :: VoiceSession where
  "completed_session = active_session\<lparr>status := Completed, endTime := Some 1000\<rparr>"

definition completed_store :: store where
  "completed_store = [(''voice_1_abc'', completed_session)]"

definition end_again_env :: end_env where
  "end_again_env = \<lparr>summarize = (\<lambda>h. Inl (Error ''offline'')), end_webhook = Inr (),
                     clock_duration = 5000, clock_end = 5000\<rparr>"

definition end_again_request :: end_request where
  "end_again_request = \<lparr>end_method = ''POST'', end_sessionId = Some ''voice_1_abc'',
                         end_satisfactionScore = None\<rparr>"

definition red_dress_alternative :: SpeechAlternative where
  "red_dress_alternative =
     \<lparr>alt_transcript = Some ''find me a red dress'', alt_confidence = Some (9 / 10)\<rparr>"

definition red_dress_env :: turn_env where
  "red_dress_env =
     \<lparr>recognize = (\<lambda>a l. Inr (Some ([red_dress_alternative] # []))),
      customer_query = Inr None,
      chat = (\<lambda>c u. Inr \<lparr>reply_text = Some ''Here are some red dresses.'',
                            reply_totalTokenCount = Some 42\<rparr>),
      webhook = Inr (),
      clock_user = 10,
      clock_assistant = 20\<rparr>"

definition red_dress_heard :: TranscriptionResult where
  "red_dress_heard =
     \<lparr>transcript = ''find me a red dress'', confidence = 9 / 10, languageCode = ''en-US''\<rparr>"

definition red_dress_answer :: turn_response where
  "red_dress_answer =
     \<lparr>out_transcript = ''find me a red dress'', out_confidence = 9 / 10,
      out_text = ''Here are some red dresses.'', out_intent = product_search,
      out_actions = Some [], out_tokensUsed = Some 42\<rparr>"

definition searching_env :: turn_env where
  "searching_env =
     red_dress_env\<lparr>chat := (\<lambda>c u. Inr \<lparr>reply_text = Some ''Searching for 'red dress' now.'',
                                              reply_totalTokenCount = Some 57\<rparr>)\<rparr>"

definition voice_request :: turn_request where
  "voice_request = \<lparr>req_method = ''POST'', req_audio = Some [], req_sessionId = Some ''voice_1_abc'',
                     req_language = None\<rparr>"

definition silent_env :: turn_env where
  "silent_env = red_dress_env\<lparr>recognize := (\<lambda>a l. Inr (Some []))\<rparr>"

definition nothing_heard :: TranscriptionResult where
  "nothing_heard = \<lparr>transcript = [], confidence = 0, languageCode = ''en-US''\<rparr>"

definition engine_down_env :: turn_env where
  "engine_down_env = red_dress_env\<lparr>chat := (\<lambda>c u. Inl (Error ''503 unavailable''))\<rparr>"






section \<open>The classifier and the extraction of actions\<close>

lemma extractActions_length: "length (extractActions responseText i context) \<le> Suc 0"
  by (cases i) (simp_all split: option.split list.split)

text \<open>
  Claim C10. Whatever the reply text, the intent and the context, \<^verbatim>\<open>extractActions\<close> returns
  at most one action: the \<^verbatim>\<open>switch\<close> takes one branch and each branch pushes at most once.
  So one call of \<^verbatim>\<open>generateAssistantResponse\<close> suggests at most one action, the fallback
  response (no \<^verbatim>\<open>suggestedActions\<close> at all) included.
\<close>

theorem at_most_one_suggested_action:
  "length (extractActions responseText i context) \<le> 1 \<and>
   length (case resp_suggestedActions (generateAssistantResponse model userInput context) of
             Some as \<Rightarrow> as | None \<Rightarrow> []) \<le> 1"
proof
  show "length (extractActions responseText i context) \<le> 1"
    using extractActions_length by simp
  show "length (case resp_suggestedActions (generateAssistantResponse model userInput context) of
             Some as \<Rightarrow> as | None \<Rightarrow> []) \<le> 1"
    by (cases "model context userInput")
      (simp_all add: generateAssistantResponse_def Let_def extractActions_length)
qed

text \<open>
  The bound at a funnel-navigation reply and at the red-dress utterance.
\<close>

theorem at_most_one_suggested_action_witness:
  "length (extractActions ''Let us go to the next step'' funnel_navigation
             (buildAssistantContext red_dress_env completed_session)) \<le> 1 \<and>
   length (case resp_suggestedActions
                  (generateAssistantResponse (chat red_dress_env) ''find me a red dress''
                     (buildAssistantContext red_dress_env completed_session)) of
             Some as \<Rightarrow> as | None \<Rightarrow> []) \<le> 1"
  by (rule at_most_one_suggested_action)

lemma no_navigation_word_in_empty_reply:
  "\<not> word_alt reply_navigation_words (toLowerCase [])"
  by code_simp

text \<open>
  Claim C4, as the code has it. \<^verbatim>\<open>detectIntent\<close> reads the model's reply in its last rule
  only: the intent is the one the utterance gives with an empty reply, except that an
  utterance no rule matches is classified \<open>funnel_navigation\<close> when the lower-cased reply
  contains \<^verbatim>\<open>step\<close>, \<^verbatim>\<open>stage\<close> or \<^verbatim>\<open>funnel\<close> as a word. \<open>general_help\<close> is the
  default when neither the utterance nor the reply matches.
\<close>

theorem detectIntent_reply_only_last_rule:
  "detectIntent userInput responseText =
     (if detectIntent userInput [] = general_help \<and>
         word_alt reply_navigation_words (toLowerCase responseText)
      then funnel_navigation
      else detectIntent userInput [])"
  using no_navigation_word_in_empty_reply
  by (simp add: detectIntent_def Let_def)

text \<open>
  The utterance \<^verbatim>\<open>hello\<close> under a reply that names a step, and under one that does not.
\<close>

theorem detectIntent_reply_only_last_rule_witness:
  "detectIntent ''hello'' ''Next Step: pick a size'' = funnel_navigation \<and>
   detectIntent ''hello'' ''hi there'' = general_help"
proof -
  have u: "detectIntent ''hello'' [] = general_help"
    by code_simp
  have r1: "word_alt reply_navigation_words (toLowerCase ''Next Step: pick a size'')"
    by code_simp
  have r2: "\<not> word_alt reply_navigation_words (toLowerCase ''hi there'')"
    by code_simp
  show ?thesis
    using detectIntent_reply_only_last_rule [of "''hello''" "''Next Step: pick a size''"]
      detectIntent_reply_only_last_rule [of "''hello''" "''hi there''"] u r1 r2
    by simp
qed

text \<open>
  Claim C4 as stated fails: one utterance, two replies of the model, two intents.
\<close>

theorem detectIntent_depends_on_reply:
  "detectIntent ''hello'' ''next step'' \<noteq> detectIntent ''hello'' ''hi''"
  by code_simp

lemma red_dress_is_product_search:
  "detectIntent ''find me a red dress'' responseText = product_search"
  by (simp add: detectIntent_def) code_simp

lemma no_search_phrase: "search_match ''Here are some red dresses.'' = None"
  by code_simp

lemma quoted_search_phrase: "search_match ''Searching for 'red dress' now.'' = Some ''red dress''"
  by code_simp

lemma intent_name_nonempty: "intent_name i \<noteq> []"
  by (cases i) simp_all

lemma extractActions_navigate:
  "a \<in> set (extractActions responseText i context) \<Longrightarrow> action_type a = ''navigate_funnel'' \<Longrightarrow>
   i = funnel_navigation"
  by (cases i) (auto split: option.splits list.splits)

section \<open>The document store\<close>

lemma getVoiceSession_update:
  "getVoiceSession (AList.update k v st) k' = (if k' = k then Some v else getVoiceSession st k')"
  by (simp add: getVoiceSession_def update_conv')

lemma update_stored: "getVoiceSession st sid = Some s \<Longrightarrow> AList.update sid s st = st"
  by (simp add: getVoiceSession_def update_triv)

lemma doc_update_present:
  "getVoiceSession st sid = Some s \<Longrightarrow> doc_update st sid f = Inr (AList.update sid (f s) st)"
  by (simp add: doc_update_def getVoiceSession_def)

lemma doc_update_absent:
  "getVoiceSession st sid = None \<Longrightarrow> doc_update st sid f = Inl FirestoreNotFound"
  by (simp add: doc_update_def getVoiceSession_def)

lemma getVoiceSession_sweep:
  "getVoiceSession (snd (cleanupAbandonedSessions now st)) sid =
     map_option (\<lambda>s. if is_abandoned_candidate now s then s\<lparr>status := Abandoned\<rparr> else s)
       (getVoiceSession st sid)"
  by (induction st) (auto simp: cleanupAbandonedSessions_def getVoiceSession_def)

lemma absorbed_id: "absorbed outcome result = result"
  by (cases outcome) (simp_all add: absorbed_def)

lemma createVoiceSession_stored:
  assumes "createVoiceSession fresh now d st0 = Inr (session, st)"
  shows "getVoiceSession st fresh = Some session"
    and "language session = or_else (new_language d) ''en-US''"
    and "intents (analytics session) = Map.empty"
    and "conversationHistory session = []"
    and "totalMessages (metadata session) = 0"
  using assms
  by (auto simp: createVoiceSession_def doc_set_def getVoiceSession_update Let_def
      split: if_splits)

lemma active_store_created:
  "createVoiceSession ''voice_1_abc'' 0 shopper_web [] = Inr (active_session, active_store)"
  by (simp add: active_session_def active_store_def createVoiceSession_def shopper_web_def Let_def)

lemma active_store_lookup: "getVoiceSession active_store ''voice_1_abc'' = Some active_session"
  using createVoiceSession_stored(1) [OF active_store_created] .

lemma active_session_language: "language active_session = ''en-US''"
  using createVoiceSession_stored(2) [OF active_store_created]
  by (simp add: shopper_web_def or_else_def)

lemma active_session_history: "conversationHistory active_session = []"
  using createVoiceSession_stored(4) [OF active_store_created] .


lemma completed_store_lookup:
  "getVoiceSession completed_store ''voice_1_abc'' = Some completed_session"
  by (simp add: completed_store_def getVoiceSession_def)

lemma completed_session_status: "status completed_session = Completed"
  by (simp add: completed_session_def)

lemma completed_session_language: "language completed_session = ''en-US''"
  by (simp add: completed_session_def active_session_language)

lemma session_id_nonempty: "''voice_1_abc'' \<noteq> []"
  by simp

section \<open>The session lifecycle\<close>

text \<open>
  Claim C3, as the code has it. None of \<^verbatim>\<open>pauseVoiceSession\<close>, \<^verbatim>\<open>resumeVoiceSession\<close> and
  \<^verbatim>\<open>endVoiceSession\<close> reads the status it overwrites. On a completed or abandoned session,
  pause stores \<open>paused\<close>, end stores \<open>completed\<close> and the sweep, which selects active
  sessions only, leaves the document as it is: none of the three makes it active. Resume
  stores \<open>active\<close>, whatever the status was.
\<close>

theorem lifecycle_from_terminal:
  assumes "getVoiceSession st sid = Some s"
    and "status s = Completed \<or> status s = Abandoned"
  shows "(\<exists>st' s'. pauseVoiceSession st sid = Inr st' \<and> getVoiceSession st' sid = Some s' \<and>
            status s' = Paused) \<and>
         (\<exists>st' s'. endVoiceSession st sid score t_duration t_end = Inr st' \<and>
            getVoiceSession st' sid = Some s' \<and> status s' = Completed) \<and>
         getVoiceSession (snd (cleanupAbandonedSessions now st)) sid = Some s \<and>
         (\<exists>st' s'. resumeVoiceSession st sid = Inr st' \<and> getVoiceSession st' sid = Some s' \<and>
            status s' = Active)"
proof (intro conjI)
  show "\<exists>st' s'. pauseVoiceSession st sid = Inr st' \<and> getVoiceSession st' sid = Some s' \<and>
            status s' = Paused"
    using assms(1) by (simp add: pauseVoiceSession_def doc_update_present getVoiceSession_update)
  show "\<exists>st' s'. endVoiceSession st sid score t_duration t_end = Inr st' \<and>
            getVoiceSession st' sid = Some s' \<and> status s' = Completed"
    using assms(1)
    by (simp add: endVoiceSession_def doc_update_present getVoiceSession_update Let_def)
  show "getVoiceSession (snd (cleanupAbandonedSessions now st)) sid = Some s"
    using assms by (auto simp: getVoiceSession_sweep is_abandoned_candidate_def)
  show "\<exists>st' s'. resumeVoiceSession st sid = Inr st' \<and> getVoiceSession st' sid = Some s' \<and>
            status s' = Active"
    using assms(1) by (simp add: resumeVoiceSession_def doc_update_present getVoiceSession_update)
qed

text \<open>
  A completed session: resumed it is active, swept it stays as it is.
\<close>

theorem lifecycle_from_terminal_witness:
  "status completed_session = Completed \<and>
   (\<exists>st' s'. resumeVoiceSession completed_store ''voice_1_abc'' = Inr st' \<and>
      getVoiceSession st' ''voice_1_abc'' = Some s' \<and> status s' = Active) \<and>
   getVoiceSession (snd (cleanupAbandonedSessions 9999999 completed_store)) ''voice_1_abc'' =
     Some completed_session"
  using lifecycle_from_terminal [OF completed_store_lookup, of None 0 0 9999999]
    completed_session_status
  by blast

text \<open>
  Claim C3 as stated fails: resuming a completed session makes it active again.
\<close>

theorem resume_reactivates_completed:
  "status completed_session = Completed \<and>
   map_option status
     (getVoiceSession (projr (resumeVoiceSession completed_store ''voice_1_abc'')) ''voice_1_abc'')
     = Some Active"
  by (simp add: completed_session_status resumeVoiceSession_def
      doc_update_present [OF completed_store_lookup] getVoiceSession_update)

section \<open>Ending a session\<close>

lemma end_session_action_present:
  assumes "end_method req = ''POST''" and "end_sessionId req = Some sid" and "sid \<noteq> []"
    and "getVoiceSession st sid = Some s"
  shows "\<exists>resp. end_session_action env req st =
           (Inr resp, AList.update sid (ended env (end_satisfactionScore req) s) st) \<and>
         end_analytics resp = snapshot_of s"
  using assms
  by (simp add: end_session_action_def endVoiceSession_def doc_update_present Let_def
      absorbed_id snapshot_of_def ended_def)

lemma snapshot_of_ended: "snapshot_of (ended env score s) = snapshot_of s"
  by (simp add: snapshot_of_def ended_def)

text \<open>
  Claim C2, as the code has it. \<^verbatim>\<open>endVoiceSession\<close> does not read the status. A second
  end-session request on the session answers without error and with the analytics of the
  first answer (total messages, intents, products discussed, conversion attempts), and the
  status stays \<open>completed\<close>; but the second call writes the document again: the end time and
  the total duration are recomputed from the clock of the second call, and a non-zero
  satisfaction score of the second request replaces the stored one. Every other field keeps
  its value.
\<close>

theorem end_session_twice:
  assumes "end_method req1 = ''POST''" and "end_sessionId req1 = Some sid"
    and "end_method req2 = ''POST''" and "end_sessionId req2 = Some sid"
    and "sid \<noteq> []" and "getVoiceSession st sid = Some s"
  shows "\<exists>resp1 st1 s1 resp2 st2.
           end_session_action env1 req1 st = (Inr resp1, st1) \<and>
           getVoiceSession st1 sid = Some s1 \<and> status s1 = Completed \<and>
           end_session_action env2 req2 st1 = (Inr resp2, st2) \<and>
           end_analytics resp2 = end_analytics resp1 \<and>
           getVoiceSession st2 sid =
             Some (s1\<lparr>endTime := Some (clock_end env2),
                      metadata := (metadata s1)
                        \<lparr>totalDuration := Some ((clock_duration env2 - startTime s1) div 1000)\<rparr>,
                      analytics :=
                        (if number_truthy (end_satisfactionScore req2)
                         then (analytics s1)\<lparr>satisfactionScore := end_satisfactionScore req2\<rparr>
                         else analytics s1)\<rparr>)"
proof -
  let ?s1 = "ended env1 (end_satisfactionScore req1) s"
  let ?st1 = "AList.update sid ?s1 st"
  obtain resp1 where r1: "end_session_action env1 req1 st = (Inr resp1, ?st1)"
    and a1: "end_analytics resp1 = snapshot_of s"
    using end_session_action_present [OF assms(1,2,5,6)] by blast
  have l1: "getVoiceSession ?st1 sid = Some ?s1"
    by (simp add: getVoiceSession_update)
  obtain resp2 where
    r2: "end_session_action env2 req2 ?st1 =
           (Inr resp2, AList.update sid (ended env2 (end_satisfactionScore req2) ?s1) ?st1)"
    and a2: "end_analytics resp2 = snapshot_of ?s1"
    using end_session_action_present [OF assms(3,4,5) l1] by blast
  have c1: "status ?s1 = Completed"
    by (simp add: ended_def)
  have e2: "ended env2 (end_satisfactionScore req2) ?s1 =
      ?s1\<lparr>endTime := Some (clock_end env2),
          metadata := (metadata ?s1)
            \<lparr>totalDuration := Some ((clock_duration env2 - startTime ?s1) div 1000)\<rparr>,
          analytics :=
            (if number_truthy (end_satisfactionScore req2)
             then (analytics ?s1)\<lparr>satisfactionScore := end_satisfactionScore req2\<rparr>
             else analytics ?s1)\<rparr>"
    by (simp add: ended_def)
  have l2: "getVoiceSession (AList.update sid (ended env2 (end_satisfactionScore req2) ?s1) ?st1) sid
      = Some (ended env2 (end_satisfactionScore req2) ?s1)"
    by (simp add: getVoiceSession_update)
  have a21: "end_analytics resp2 = end_analytics resp1"
    using a1 a2 by (simp add: snapshot_of_ended)
  show ?thesis
    using r1 l1 c1 r2 a21 l2 e2 by metis
qed

text \<open>
  Two end-session requests in a row on the stored session.
\<close>

theorem end_session_twice_witness:
  "\<exists>resp1 st1 s1 resp2 st2.
     end_session_action end_again_env end_again_request completed_store = (Inr resp1, st1) \<and>
     getVoiceSession st1 ''voice_1_abc'' = Some s1 \<and> status s1 = Completed \<and>
     end_session_action end_again_env end_again_request st1 = (Inr resp2, st2) \<and>
     end_analytics resp2 = end_analytics resp1"
proof -
  have m: "end_method end_again_request = ''POST''"
    and i: "end_sessionId end_again_request = Some ''voice_1_abc''"
    by (simp_all add: end_again_request_def)
  show ?thesis
    using end_session_twice [OF m i m i session_id_nonempty completed_store_lookup,
        of end_again_env end_again_env]
    by blast
qed

text \<open>
  Claim C2 as stated fails: the session is completed, with end time 1000; an end-session
  request at clock 5000 leaves a different store.
\<close>

theorem end_again_rewrites_record:
  "status completed_session = Completed \<and>
   getVoiceSession completed_store ''voice_1_abc'' = Some completed_session \<and>
   snd (end_session_action end_again_env end_again_request completed_store) \<noteq> completed_store"
proof -
  obtain resp where
    r: "end_session_action end_again_env end_again_request completed_store =
          (Inr resp, AList.update ''voice_1_abc'' (ended end_again_env None completed_session)
                       completed_store)"
    using end_session_action_present [of end_again_request "''voice_1_abc''" completed_store
        completed_session end_again_env] completed_store_lookup
    by (auto simp: end_again_request_def)
  have "endTime (ended end_again_env None completed_session) \<noteq> endTime completed_session"
    by (simp add: ended_def end_again_env_def completed_session_def)
  then have "ended end_again_env None completed_session \<noteq> completed_session"
    by auto
  then have "getVoiceSession (snd (end_session_action end_again_env end_again_request
        completed_store)) ''voice_1_abc'' \<noteq> getVoiceSession completed_store ''voice_1_abc''"
    by (simp add: r getVoiceSession_update completed_store_lookup)
  then show ?thesis
    using completed_store_lookup completed_session_status by auto
qed

section \<open>Processing a turn\<close>

subsection \<open>The service calls on a stored session\<close>

lemma addMessageToSession_present:
  "getVoiceSession st sid = Some s \<Longrightarrow>
   addMessageToSession st sid m i = Inr (AList.update sid (appended m i s) st)"
  by (simp add: addMessageToSession_def getConversationHistory_def getTotalMessages_def
      doc_update_present appended_def Let_def)

lemma addMessageToSession_absent:
  "getVoiceSession st sid = None \<Longrightarrow> addMessageToSession st sid m i = Inl FirestoreNotFound"
  by (simp add: addMessageToSession_def doc_update_absent Let_def)

lemma trackProductDiscussion_present:
  "getVoiceSession st sid = Some s \<Longrightarrow>
   trackProductDiscussion st sid p =
     Inr (if p \<in> set (productsDiscussed (analytics s)) then st
          else AList.update sid (discussed p s) st)"
  by (simp add: trackProductDiscussion_def Let_def doc_update_present discussed_def)

lemma funnel_patch_undefined:
  "patch_has_undefined (no_patch\<lparr>patch_funnelStage := Some g\<rparr>) = (g = None)"
  by (simp add: patch_has_undefined_def no_patch_def)

lemma funnel_patch_merge:
  "merge_context c (no_patch\<lparr>patch_funnelStage := Some g\<rparr>) = c\<lparr>ctx_funnelStage := g\<rparr>"
  by (simp add: merge_context_def no_patch_def spread_def)

lemma updateSessionContext_funnel:
  "getVoiceSession st sid = Some s \<Longrightarrow>
   updateSessionContext st sid (no_patch\<lparr>patch_funnelStage := Some g\<rparr>) =
     (if g = None then Inl FirestoreUndefinedValue
      else Inr (AList.update sid (at_stage g s) st))"
  by (simp add: updateSessionContext_def funnel_patch_undefined funnel_patch_merge
      doc_update_present at_stage_def)

lemma trackConversionAttempt_present:
  "getVoiceSession st sid = Some s \<Longrightarrow>
   trackConversionAttempt st sid = Inr (AList.update sid (converted s) st)"
  by (simp add: trackConversionAttempt_def doc_update_present converted_def)

subsection \<open>Dispatch of the suggested actions\<close>

lemma handle_action_present:
  assumes "getVoiceSession st sid = Some s"
  shows "handle_action sid a st =
           (case session_handle a s of
              Inl e \<Rightarrow> Inl e
            | Inr s' \<Rightarrow> Inr (AList.update sid s' st))"
  using assms update_stored [OF assms]
  by (simp add: handle_action_def session_handle_def trackProductDiscussion_present
      updateSessionContext_funnel)


lemma processSuggestedActions_present:
  "getVoiceSession st sid = Some s \<Longrightarrow>
   processSuggestedActions sid as st =
     (fst (session_dispatch as s), AList.update sid (snd (session_dispatch as s)) st)"
proof (induction as arbitrary: st s)
  case Nil
  then show ?case by (simp add: update_stored)
next
  case (Cons a as)
  show ?case
  proof (cases "session_handle a s")
    case (Inl e)
    then show ?thesis
      using Cons.prems by (simp add: handle_action_present update_stored)
  next
    case (Inr s1)
    have l: "getVoiceSession (AList.update sid s1 st) sid = Some s1"
      by (simp add: getVoiceSession_update)
    show ?thesis
      using Inr Cons.prems Cons.IH [OF l] by (simp add: handle_action_present)
  qed
qed


lemma kept_refl: "kept s s"
  by (simp add: kept_def)

lemma kept_trans: "kept s s' \<Longrightarrow> kept s' s'' \<Longrightarrow> kept s s''"
  by (simp add: kept_def)

lemma session_handle_kept: "session_handle a s = Inr s' \<Longrightarrow> kept s s'"
  by (auto simp: session_handle_def kept_def discussed_def at_stage_def split: if_splits)

lemma session_dispatch_kept: "kept s (snd (session_dispatch as s))"
proof (induction as arbitrary: s)
  case Nil
  then show ?case by (simp add: kept_refl)
next
  case (Cons a as)
  show ?case
  proof (cases "session_handle a s")
    case (Inl e)
    then show ?thesis by (simp add: kept_refl)
  next
    case (Inr s1)
    then show ?thesis
      using kept_trans [OF session_handle_kept [OF Inr] Cons.IH [of s1]] by simp
  qed
qed

lemma converted_kept: "kept s (converted s)"
  by (simp add: kept_def converted_def)

lemma session_handle_set_status:
  "session_handle a (s\<lparr>status := t\<rparr>) =
     (case session_handle a s of Inl e \<Rightarrow> Inl e | Inr s' \<Rightarrow> Inr (s'\<lparr>status := t\<rparr>))"
  by (simp add: session_handle_def discussed_def at_stage_def)

lemma session_dispatch_set_status:
  "session_dispatch as (s\<lparr>status := t\<rparr>) =
     (fst (session_dispatch as s), (snd (session_dispatch as s))\<lparr>status := t\<rparr>)"
proof (induction as arbitrary: s)
  case Nil
  then show ?case by simp
next
  case (Cons a as)
  then show ?case
    by (cases "session_handle a s") (simp_all add: session_handle_set_status)
qed

lemma session_dispatch_completes:
  "(\<forall>a \<in> set as. action_type a = ''navigate_funnel'' \<longrightarrow> data_stage (action_payload a) \<noteq> None) \<Longrightarrow>
   fst (session_dispatch as s) = Inr ()"
proof (induction as arbitrary: s)
  case Nil
  then show ?case by simp
next
  case (Cons a as)
  then have "\<exists>s1. session_handle a s = Inr s1"
    by (auto simp: session_handle_def)
  then show ?case
    using Cons by auto
qed







subsection \<open>The route on a stored session\<close>

lemma turn_steps_present:
  assumes "getVoiceSession st sid = Some s"
  shows "turn_steps env sid s tr st =
           (fst (turn_session env tr s), AList.update sid (snd (turn_session env tr s)) st)"
proof -
  let ?ai = "engine_response env s tr"
  let ?s1 = "appended (user_message env tr) None s"
  let ?st1 = "AList.update sid ?s1 st"
  let ?s2 = "appended (assistant_message env ?ai) (Some (intent_name (resp_intent ?ai))) ?s1"
  let ?st2 = "AList.update sid ?s2 ?st1"
  let ?acts = "case resp_suggestedActions ?ai of Some as \<Rightarrow> as | None \<Rightarrow> []"
  let ?d = "session_dispatch ?acts ?s2"
  have a1: "addMessageToSession st sid (user_message env tr) None = Inr ?st1"
    using assms by (rule addMessageToSession_present)
  have l1: "getVoiceSession ?st1 sid = Some ?s1"
    by (simp add: getVoiceSession_update)
  have a2: "addMessageToSession ?st1 sid (assistant_message env ?ai)
              (Some (intent_name (resp_intent ?ai))) = Inr ?st2"
    using l1 by (rule addMessageToSession_present)
  have l2: "getVoiceSession ?st2 sid = Some ?s2"
    by (simp add: getVoiceSession_update)
  have d: "processSuggestedActions sid ?acts ?st2 = (fst ?d, AList.update sid (snd ?d) st)"
    using processSuggestedActions_present [OF l2] by simp
  have l3: "getVoiceSession (AList.update sid (snd ?d) st) sid = Some (snd ?d)"
    by (simp add: getVoiceSession_update)
  have c: "(if resp_intent ?ai = add_to_cart \<or> resp_intent ?ai = checkout
            then trackConversionAttempt (AList.update sid (snd ?d) st) sid
            else Inr (AList.update sid (snd ?d) st)) =
      Inr (AList.update sid
             (if resp_intent ?ai = add_to_cart \<or> resp_intent ?ai = checkout
              then converted (snd ?d) else snd ?d) st)"
    using trackConversionAttempt_present [OF l3] by simp
  show ?thesis
  proof (cases "fst ?d")
    case (Inl e)
    then have p: "processSuggestedActions sid ?acts ?st2 = (Inl e, AList.update sid (snd ?d) st)"
      using d by simp
    have "turn_steps env sid s tr st = (Inl e, AList.update sid (snd ?d) st)"
      unfolding turn_steps_def
      using a1 a2 p
      by (simp add: Let_def user_message_def [symmetric] engine_response_def [symmetric]
          assistant_message_def [symmetric])
    then show ?thesis
      using Inl by (simp add: turn_session_def Let_def)
  next
    case (Inr u)
    then have p: "processSuggestedActions sid ?acts ?st2 = (Inr u, AList.update sid (snd ?d) st)"
      using d by simp
    have "turn_steps env sid s tr st =
        (Inr (turn_result tr ?ai),
         AList.update sid
           (if resp_intent ?ai = add_to_cart \<or> resp_intent ?ai = checkout
            then converted (snd ?d) else snd ?d) st)"
      unfolding turn_steps_def
      using a1 a2 p c
      by (simp add: Let_def absorbed_id turn_result_def
          user_message_def [symmetric] engine_response_def [symmetric]
          assistant_message_def [symmetric] split del: if_split)
    then show ?thesis
      using Inr by (simp add: turn_session_def Let_def split del: if_split)
  qed
qed

lemma process_audio_action_stored:
  assumes "getVoiceSession st sid = Some s" and "req_sessionId req = Some sid"
  shows "process_audio_action env req st =
           (fst (route_on env req s), AList.update sid (snd (route_on env req s)) st)"
proof -
  have u: "AList.update sid s st = st"
    using assms(1) by (rule update_stored)
  have t: "turn_steps env sid s tr st =
      (fst (turn_session env tr s), AList.update sid (snd (turn_session env tr s)) st)" for tr
    using assms(1) by (rule turn_steps_present)
  show ?thesis
  proof (cases "sid = []")
    case True
    then have "AList.update [] s st = st"
      using u by simp
    then show ?thesis
      using True by (simp add: process_audio_action_def route_on_def Let_def assms(2)
          split: option.split)
  next
    case False
    then show ?thesis
      by (simp add: process_audio_action_def route_on_def Let_def assms u t
          split: option.split sum.split)
  qed
qed

lemma turn_session_kept:
  "kept (appended (assistant_message env (engine_response env s tr))
           (Some (intent_name (resp_intent (engine_response env s tr))))
           (appended (user_message env tr) None s))
        (snd (turn_session env tr s))"
proof -
  let ?ai = "engine_response env s tr"
  let ?s2 = "appended (assistant_message env ?ai) (Some (intent_name (resp_intent ?ai)))
               (appended (user_message env tr) None s)"
  let ?d = "session_dispatch (case resp_suggestedActions ?ai of Some as \<Rightarrow> as | None \<Rightarrow> []) ?s2"
  have k: "kept ?s2 (snd ?d)"
    by (rule session_dispatch_kept)
  then have "kept ?s2 (converted (snd ?d))"
    using kept_trans converted_kept by blast
  then show ?thesis
    using k by (cases "fst ?d") (simp_all add: turn_session_def Let_def)
qed

lemma route_on_kept_cases:
  "snd (route_on env req s) = s \<or>
   (\<exists>tr. kept (appended (assistant_message env (engine_response env s tr))
                  (Some (intent_name (resp_intent (engine_response env s tr))))
                  (appended (user_message env tr) None s))
               (snd (route_on env req s)))"
  using turn_session_kept [of env s]
  by (auto simp: route_on_def split: option.split sum.split)

lemma appended_status: "status (appended m i s) = status s"
  by (simp add: appended_def)

lemma route_on_status: "status (snd (route_on env req s)) = status s"
  using route_on_kept_cases [of env req s]
  by (auto simp: kept_def appended_status)

lemma buildAssistantContext_set_status:
  "buildAssistantContext env (s\<lparr>status := t\<rparr>) = buildAssistantContext env s"
  by (simp add: buildAssistantContext_def)

lemma engine_response_set_status:
  "engine_response env (s\<lparr>status := t\<rparr>) tr = engine_response env s tr"
  by (simp add: engine_response_def buildAssistantContext_set_status)

lemma appended_set_status: "appended m i (s\<lparr>status := t\<rparr>) = (appended m i s)\<lparr>status := t\<rparr>"
  by (simp add: appended_def)

lemma converted_set_status: "converted (s\<lparr>status := t\<rparr>) = (converted s)\<lparr>status := t\<rparr>"
  by (simp add: converted_def)

lemma turn_session_set_status:
  "turn_session env tr (s\<lparr>status := t\<rparr>) =
     (fst (turn_session env tr s), (snd (turn_session env tr s))\<lparr>status := t\<rparr>)"
proof -
  let ?ai = "engine_response env s tr"
  let ?s2 = "appended (assistant_message env ?ai) (Some (intent_name (resp_intent ?ai)))
               (appended (user_message env tr) None s)"
  let ?d = "session_dispatch (case resp_suggestedActions ?ai of Some as \<Rightarrow> as | None \<Rightarrow> []) ?s2"
  show ?thesis
    by (cases "fst ?d")
      (simp_all add: turn_session_def Let_def engine_response_set_status appended_set_status
        session_dispatch_set_status converted_set_status)
qed

lemma route_on_set_status:
  "route_on env req (s\<lparr>status := t\<rparr>) =
     (fst (route_on env req s), (snd (route_on env req s))\<lparr>status := t\<rparr>)"
  by (simp add: route_on_def turn_session_set_status split: option.split sum.split)

lemma engine_actions_complete:
  assumes "resp_intent (engine_response env s tr) \<noteq> funnel_navigation"
  shows "fst (session_dispatch
                (case resp_suggestedActions (engine_response env s tr) of
                   Some as \<Rightarrow> as | None \<Rightarrow> []) s') = Inr ()"
proof (rule session_dispatch_completes, intro ballI impI)
  fix a
  assume a: "a \<in> set (case resp_suggestedActions (engine_response env s tr) of
                         Some as \<Rightarrow> as | None \<Rightarrow> [])"
    and n: "action_type a = ''navigate_funnel''"
  show "data_stage (action_payload a) \<noteq> None"
  proof (cases "chat env (buildAssistantContext env s) (transcript tr)")
    case (Inl e)
    then show ?thesis
      using a by (simp add: engine_response_def generateAssistantResponse_def)
  next
    case (Inr reply)
    then have "resp_intent (engine_response env s tr) = funnel_navigation"
      using a n extractActions_navigate
      by (auto simp: engine_response_def generateAssistantResponse_def Let_def)
    then show ?thesis
      using assms by simp
  qed
qed

lemma turn_session_succeeds:
  assumes "resp_intent (engine_response env s tr) \<noteq> funnel_navigation"
  shows "fst (turn_session env tr s) = Inr (turn_result tr (engine_response env s tr))"
  using engine_actions_complete [OF assms]
  by (simp add: turn_session_def Let_def)

lemma history_after_turn:
  assumes "kept (appended m2 i2 (appended m1 i1 s)) s'"
  shows "conversationHistory s' = conversationHistory s @ [m1, m2]"
    and "status s' = status s"
  using assms by (simp_all add: kept_def appended_def)

lemma intents_after_turn:
  assumes "kept (appended m2 (Some i) (appended m1 None s)) s'" and "i \<noteq> []"
  shows "intents (analytics s') =
           (intents (analytics s))(i \<mapsto> count_or_zero (intents (analytics s) i) + 1)"
  using assms by (simp add: kept_def appended_def)

lemma process_audio_action_turn:
  assumes "req_method req = ''POST''" and "req_audio req = Some a"
    and "req_sessionId req = Some sid" and "sid \<noteq> []"
    and "getVoiceSession st sid = Some s"
    and "transcribeAudio (recognize env) a (Some (or_else (req_language req) (language s))) = Inr tr"
    and "transcript tr \<noteq> []"
  shows "process_audio_action env req st =
           (case fst (turn_session env tr s) of
              Inl e \<Rightarrow> Inl (InternalError (exn_message e))
            | Inr r \<Rightarrow> Inr r,
            AList.update sid (snd (turn_session env tr s)) st)"
  using assms
  by (simp add: process_audio_action_stored [OF assms(5,3)] route_on_def split: sum.split)

lemma engine_response_fallback:
  assumes "chat env (buildAssistantContext env s) (transcript tr) = Inl e"
  shows "engine_response env s tr =
           \<lparr>resp_text = fallback_text, resp_intent = unknown, resp_confidence = 0,
            resp_suggestedActions = None, resp_tokensUsed = None\<rparr>"
  using assms by (simp add: engine_response_def generateAssistantResponse_def)

lemma turn_succeeds:
  assumes "req_method req = ''POST''" and "req_audio req = Some a"
    and "req_sessionId req = Some sid" and "sid \<noteq> []"
    and "getVoiceSession st sid = Some s"
    and "transcribeAudio (recognize env) a (Some (or_else (req_language req) (language s))) = Inr tr"
    and "transcript tr \<noteq> []"
    and "resp_intent (engine_response env s tr) \<noteq> funnel_navigation"
  shows "\<exists>st' s'. process_audio_action env req st =
             (Inr (turn_result tr (engine_response env s tr)), st') \<and>
           getVoiceSession st' sid = Some s' \<and>
           kept (appended (assistant_message env (engine_response env s tr))
                   (Some (intent_name (resp_intent (engine_response env s tr))))
                   (appended (user_message env tr) None s)) s'"
proof -
  have "process_audio_action env req st =
      (Inr (turn_result tr (engine_response env s tr)),
       AList.update sid (snd (turn_session env tr s)) st)"
    using process_audio_action_turn [OF assms(1-7)] turn_session_succeeds [OF assms(8)] by simp
  moreover have "getVoiceSession (AList.update sid (snd (turn_session env tr s)) st) sid =
      Some (snd (turn_session env tr s))"
    by (simp add: getVoiceSession_update)
  ultimately show ?thesis
    using turn_session_kept by blast
qed

subsection \<open>The concrete collaborators\<close>

lemma voice_request_fields:
  "req_method voice_request = ''POST''" "req_audio voice_request = Some []"
  "req_sessionId voice_request = Some ''voice_1_abc''" "req_language voice_request = None"
  by (simp_all add: voice_request_def)

lemma red_dress_transcribed:
  "transcribeAudio (recognize red_dress_env) [] (Some (or_else None ''en-US'')) = Inr red_dress_heard"
  by (simp add: transcribeAudio_def red_dress_env_def red_dress_heard_def or_else_def
      first_transcript_def first_confidence_def red_dress_alternative_def)

lemma nothing_transcribed:
  "transcribeAudio (recognize silent_env) [] (Some (or_else None ''en-US'')) = Inr nothing_heard"
  by (simp add: transcribeAudio_def silent_env_def nothing_heard_def or_else_def
      first_confidence_def)

lemma engine_down_transcribed:
  "transcribeAudio (recognize engine_down_env) [] (Some (or_else None ''en-US'')) = Inr red_dress_heard"
  using red_dress_transcribed by (simp add: engine_down_env_def)

lemma red_dress_clocks: "clock_user red_dress_env = 10" "clock_assistant red_dress_env = 20"
  by (simp_all add: red_dress_env_def)

lemma red_dress_heard_nonempty: "transcript red_dress_heard \<noteq> []"
  by (simp add: red_dress_heard_def)

lemma red_dress_reply:
  "chat red_dress_env c u =
     Inr \<lparr>reply_text = Some ''Here are some red dresses.'', reply_totalTokenCount = Some 42\<rparr>"
  by (simp add: red_dress_env_def)

lemma red_dress_engine_response:
  "engine_response red_dress_env s red_dress_heard =
     \<lparr>resp_text = ''Here are some red dresses.'', resp_intent = product_search,
      resp_confidence = 85 / 100, resp_suggestedActions = Some [], resp_tokensUsed = Some 42\<rparr>"
  by (simp add: engine_response_def generateAssistantResponse_def Let_def red_dress_reply
      red_dress_heard_def red_dress_is_product_search no_search_phrase
      del: search_match.simps)

lemma red_dress_turn_outcome:
  assumes "getVoiceSession st ''voice_1_abc'' = Some s" and "language s = ''en-US''"
  shows "\<exists>st' s'. process_audio_action red_dress_env voice_request st = (Inr red_dress_answer, st') \<and>
           getVoiceSession st' ''voice_1_abc'' = Some s' \<and>
           conversationHistory s' =
             conversationHistory s @
               [\<lparr>role = User, content = ''find me a red dress'', timestamp = 10\<rparr>,
                \<lparr>role = Assistant, content = ''Here are some red dresses.'', timestamp = 20\<rparr>]"
proof -
  let ?ai = "\<lparr>resp_text = ''Here are some red dresses.'', resp_intent = product_search,
      resp_confidence = 85 / 100, resp_suggestedActions = Some [], resp_tokensUsed = Some 42\<rparr>"
  have tr: "transcribeAudio (recognize red_dress_env) []
      (Some (or_else (req_language voice_request) (language s))) = Inr red_dress_heard"
    using red_dress_transcribed assms(2) by (simp add: voice_request_fields)
  have i: "resp_intent (engine_response red_dress_env s red_dress_heard) \<noteq> funnel_navigation"
    by (simp add: red_dress_engine_response)
  obtain st' s' where p: "process_audio_action red_dress_env voice_request st =
      (Inr (turn_result red_dress_heard (engine_response red_dress_env s red_dress_heard)), st')"
    "getVoiceSession st' ''voice_1_abc'' = Some s'"
    "kept (appended (assistant_message red_dress_env (engine_response red_dress_env s red_dress_heard))
             (Some (intent_name (resp_intent (engine_response red_dress_env s red_dress_heard))))
             (appended (user_message red_dress_env red_dress_heard) None s)) s'"
    using turn_succeeds [OF voice_request_fields(1,2,3) session_id_nonempty
        assms(1) tr red_dress_heard_nonempty i] by blast
  have r: "process_audio_action red_dress_env voice_request st =
      (Inr (turn_result red_dress_heard ?ai), st')"
    using p(1) by (simp only: red_dress_engine_response)
  have a: "turn_result red_dress_heard ?ai = red_dress_answer"
    by (simp add: turn_result_def red_dress_answer_def red_dress_heard_def)
  have h: "conversationHistory s' = conversationHistory s @
      [user_message red_dress_env red_dress_heard, assistant_message red_dress_env ?ai]"
    using history_after_turn(1) [OF p(3)] by (simp only: red_dress_engine_response)
  have m: "user_message red_dress_env red_dress_heard =
      \<lparr>role = User, content = ''find me a red dress'', timestamp = 10\<rparr>"
    "assistant_message red_dress_env ?ai =
      \<lparr>role = Assistant, content = ''Here are some red dresses.'', timestamp = 20\<rparr>"
    by (simp_all add: user_message_def assistant_message_def red_dress_env_def red_dress_heard_def)
  show ?thesis
    using r a h m p(2) by simp
qed

lemma completed_transcribed:
  "transcribeAudio (recognize red_dress_env) []
      (Some (or_else (req_language voice_request) (language completed_session))) = Inr red_dress_heard"
  using red_dress_transcribed by (simp add: voice_request_fields completed_session_language)

subsection \<open>Empty transcript\<close>

text \<open>
  Claim C7. When the transcriber returns an empty transcript for the audio of a stored
  session, the route answers with the error \<open>EmptyTranscript\<close> (status 400,
  \<^verbatim>\<open>Could not transcribe audio\<close>) and the store is what it was: no message is appended and
  no counter moves.
\<close>

theorem empty_transcript_rejected:
  assumes "req_method req = ''POST''" and "req_audio req = Some a"
    and "req_sessionId req = Some sid" and "sid \<noteq> []"
    and "getVoiceSession st sid = Some s"
    and "transcribeAudio (recognize env) a (Some (or_else (req_language req) (language s))) = Inr tr"
    and "transcript tr = []"
  shows "process_audio_action env req st = (Inl EmptyTranscript, st)"
  using assms by (simp add: process_audio_action_def Let_def)

text \<open>
  A recognizer that returns no result, on a fresh session.
\<close>

theorem empty_transcript_rejected_witness:
  "process_audio_action silent_env voice_request active_store = (Inl EmptyTranscript, active_store)"
proof -
  have tr: "transcribeAudio (recognize silent_env) []
      (Some (or_else (req_language voice_request) (language active_session))) = Inr nothing_heard"
    using nothing_transcribed by (simp add: voice_request_fields active_session_language)
  have e: "transcript nothing_heard = []"
    by (simp add: nothing_heard_def)
  show ?thesis
    by (rule empty_transcript_rejected [OF voice_request_fields(1,2,3) session_id_nonempty
          active_store_lookup tr e])
qed

subsection \<open>A turn on a session that has ended\<close>

text \<open>
  Claim C1, as the code has it. The route does not read the status of the session it
  loads. On a completed or abandoned session a request gets the answer, success or error,
  that it would get if the same session were active, and the document is written as it
  would be then, the status apart, which stays what it was. In particular a turn with a
  non-empty transcript whose intent is not \<open>funnel_navigation\<close> succeeds with the
  assistant's reply, and the user's message and the assistant's message are appended to the
  history.
\<close>

theorem terminal_session_turn_as_active:
  assumes "getVoiceSession st sid = Some s"
    and "status s = Completed \<or> status s = Abandoned"
    and "req_sessionId req = Some sid"
  shows "(\<exists>answer s'.
            process_audio_action env req st = (answer, AList.update sid s' st) \<and>
            status s' = status s \<and>
            process_audio_action env req (AList.update sid (s\<lparr>status := Active\<rparr>) st) =
              (answer, AList.update sid (s'\<lparr>status := Active\<rparr>) st)) \<and>
         (req_method req = ''POST'' \<and> req_audio req = Some a \<and> sid \<noteq> [] \<and>
          transcribeAudio (recognize env) a (Some (or_else (req_language req) (language s))) = Inr tr \<and>
          transcript tr \<noteq> [] \<and>
          resp_intent (generateAssistantResponse (chat env) (transcript tr)
                         (buildAssistantContext env s)) \<noteq> funnel_navigation \<longrightarrow>
          (\<exists>st' s'.
             process_audio_action env req st =
               (let ai = generateAssistantResponse (chat env) (transcript tr)
                           (buildAssistantContext env s)
                in Inr \<lparr>out_transcript = transcript tr, out_confidence = confidence tr,
                        out_text = resp_text ai, out_intent = resp_intent ai,
                        out_actions = resp_suggestedActions ai,
                        out_tokensUsed = resp_tokensUsed ai\<rparr>, st') \<and>
             getVoiceSession st' sid = Some s' \<and> status s' = status s \<and>
             conversationHistory s' =
               conversationHistory s @
                 [\<lparr>role = User, content = transcript tr, timestamp = clock_user env\<rparr>,
                  \<lparr>role = Assistant,
                   content = resp_text (generateAssistantResponse (chat env) (transcript tr)
                                          (buildAssistantContext env s)),
                   timestamp = clock_assistant env\<rparr>]))"
proof (intro conjI impI)
  let ?sa = "s\<lparr>status := Active\<rparr>"
  let ?sta = "AList.update sid ?sa st"
  have la: "getVoiceSession ?sta sid = Some ?sa"
    by (simp add: getVoiceSession_update)
  have p: "process_audio_action env req st =
      (fst (route_on env req s), AList.update sid (snd (route_on env req s)) st)"
    using assms(1,3) by (rule process_audio_action_stored)
  have pa: "process_audio_action env req ?sta =
      (fst (route_on env req s), AList.update sid ((snd (route_on env req s))\<lparr>status := Active\<rparr>) st)"
    using process_audio_action_stored [OF la assms(3), of env]
    by (simp add: route_on_set_status)
  show "\<exists>answer s'.
            process_audio_action env req st = (answer, AList.update sid s' st) \<and>
            status s' = status s \<and>
            process_audio_action env req (AList.update sid (s\<lparr>status := Active\<rparr>) st) =
              (answer, AList.update sid (s'\<lparr>status := Active\<rparr>) st)"
    using p pa route_on_status [of env req s] by blast
next
  assume h: "req_method req = ''POST'' \<and> req_audio req = Some a \<and> sid \<noteq> [] \<and>
          transcribeAudio (recognize env) a (Some (or_else (req_language req) (language s))) = Inr tr \<and>
          transcript tr \<noteq> [] \<and>
          resp_intent (generateAssistantResponse (chat env) (transcript tr)
                         (buildAssistantContext env s)) \<noteq> funnel_navigation"
  then have i: "resp_intent (engine_response env s tr) \<noteq> funnel_navigation"
    by (simp add: engine_response_def)
  obtain st' s' where q: "process_audio_action env req st =
             (Inr (turn_result tr (engine_response env s tr)), st')"
    "getVoiceSession st' sid = Some s'"
    "kept (appended (assistant_message env (engine_response env s tr))
                   (Some (intent_name (resp_intent (engine_response env s tr))))
                   (appended (user_message env tr) None s)) s'"
    using turn_succeeds [of req a sid st s env tr] h assms(1,3) i by blast
  have "conversationHistory s' =
               conversationHistory s @
                 [\<lparr>role = User, content = transcript tr, timestamp = clock_user env\<rparr>,
                  \<lparr>role = Assistant,
                   content = resp_text (generateAssistantResponse (chat env) (transcript tr)
                                          (buildAssistantContext env s)),
                   timestamp = clock_assistant env\<rparr>]"
    using history_after_turn(1) [OF q(3)]
    by (simp add: user_message_def assistant_message_def engine_response_def)
  moreover have "process_audio_action env req st =
               (let ai = generateAssistantResponse (chat env) (transcript tr)
                           (buildAssistantContext env s)
                in Inr \<lparr>out_transcript = transcript tr, out_confidence = confidence tr,
                        out_text = resp_text ai, out_intent = resp_intent ai,
                        out_actions = resp_suggestedActions ai,
                        out_tokensUsed = resp_tokensUsed ai\<rparr>, st')"
    using q(1) by (simp add: turn_result_def engine_response_def Let_def)
  ultimately show "\<exists>st' s'.
             process_audio_action env req st =
               (let ai = generateAssistantResponse (chat env) (transcript tr)
                           (buildAssistantContext env s)
                in Inr \<lparr>out_transcript = transcript tr, out_confidence = confidence tr,
                        out_text = resp_text ai, out_intent = resp_intent ai,
                        out_actions = resp_suggestedActions ai,
                        out_tokensUsed = resp_tokensUsed ai\<rparr>, st') \<and>
             getVoiceSession st' sid = Some s' \<and> status s' = status s \<and>
             conversationHistory s' =
               conversationHistory s @
                 [\<lparr>role = User, content = transcript tr, timestamp = clock_user env\<rparr>,
                  \<lparr>role = Assistant,
                   content = resp_text (generateAssistantResponse (chat env) (transcript tr)
                                          (buildAssistantContext env s)),
                   timestamp = clock_assistant env\<rparr>]"
    using q(2) history_after_turn(2) [OF q(3)] by blast
qed

text \<open>
  The red-dress turn on the completed session and on its active twin.
\<close>

theorem terminal_session_turn_as_active_witness:
  "(\<exists>answer s'.
      process_audio_action red_dress_env voice_request completed_store =
        (answer, AList.update ''voice_1_abc'' s' completed_store) \<and>
      status s' = status completed_session \<and>
      process_audio_action red_dress_env voice_request
        (AList.update ''voice_1_abc'' (completed_session\<lparr>status := Active\<rparr>) completed_store) =
        (answer, AList.update ''voice_1_abc'' (s'\<lparr>status := Active\<rparr>) completed_store)) \<and>
   (\<exists>st' s'.
      process_audio_action red_dress_env voice_request completed_store = (Inr red_dress_answer, st') \<and>
      getVoiceSession st' ''voice_1_abc'' = Some s' \<and> status s' = Completed \<and>
      conversationHistory s' =
        [\<lparr>role = User, content = ''find me a red dress'', timestamp = 10\<rparr>,
         \<lparr>role = Assistant, content = ''Here are some red dresses.'', timestamp = 20\<rparr>])"
proof -
  note T = terminal_session_turn_as_active [OF completed_store_lookup
      disjI1 [OF completed_session_status] voice_request_fields(3),
      of red_dress_env "[]" red_dress_heard]
  have g: "generateAssistantResponse (chat red_dress_env) (transcript red_dress_heard)
      (buildAssistantContext red_dress_env completed_session) =
      \<lparr>resp_text = ''Here are some red dresses.'', resp_intent = product_search,
      resp_confidence = 85 / 100, resp_suggestedActions = Some [], resp_tokensUsed = Some 42\<rparr>"
    using red_dress_engine_response [of completed_session] by (simp add: engine_response_def)
  have h: "req_method voice_request = ''POST'' \<and> req_audio voice_request = Some [] \<and>
      ''voice_1_abc'' \<noteq> [] \<and>
      transcribeAudio (recognize red_dress_env) []
        (Some (or_else (req_language voice_request) (language completed_session))) =
        Inr red_dress_heard \<and>
      transcript red_dress_heard \<noteq> [] \<and>
      resp_intent (generateAssistantResponse (chat red_dress_env) (transcript red_dress_heard)
                     (buildAssistantContext red_dress_env completed_session)) \<noteq> funnel_navigation"
    using completed_transcribed red_dress_heard_nonempty
    by (simp add: voice_request_fields g)
  have e: "conversationHistory completed_session = []"
    by (simp add: completed_session_def active_session_history)
  have second: "\<exists>st' s'.
      process_audio_action red_dress_env voice_request completed_store = (Inr red_dress_answer, st') \<and>
      getVoiceSession st' ''voice_1_abc'' = Some s' \<and> status s' = Completed \<and>
      conversationHistory s' =
        [\<lparr>role = User, content = ''find me a red dress'', timestamp = 10\<rparr>,
         \<lparr>role = Assistant, content = ''Here are some red dresses.'', timestamp = 20\<rparr>]"
  proof -
    have "\<exists>st' s'.
        process_audio_action red_dress_env voice_request completed_store =
          (Inr \<lparr>out_transcript = transcript red_dress_heard,
                out_confidence = confidence red_dress_heard,
                out_text = ''Here are some red dresses.'', out_intent = product_search,
                out_actions = Some [], out_tokensUsed = Some 42\<rparr>, st') \<and>
        getVoiceSession st' ''voice_1_abc'' = Some s' \<and> status s' = status completed_session \<and>
        conversationHistory s' =
          conversationHistory completed_session @
            [\<lparr>role = User, content = transcript red_dress_heard,
              timestamp = clock_user red_dress_env\<rparr>,
             \<lparr>role = Assistant, content = ''Here are some red dresses.'',
              timestamp = clock_assistant red_dress_env\<rparr>]"
      using T [THEN conjunct2, rule_format, OF h]
      by (simp only: g Let_def AssistantResponse.select_convs)
    then show ?thesis
      by (simp add: e completed_session_status red_dress_answer_def red_dress_heard_def
          red_dress_clocks)
  qed
  show ?thesis
    using T [THEN conjunct1] second by blast
qed

text \<open>
  Claim C1 as stated fails: on the completed session, whose history is empty, the turn
  is answered with a response and leaves two messages in the history.
\<close>

theorem terminal_session_turn_recorded:
  "status completed_session = Completed \<and>
   conversationHistory completed_session = [] \<and>
   fst (process_audio_action red_dress_env voice_request completed_store) = Inr red_dress_answer \<and>
   map_option conversationHistory
     (getVoiceSession (snd (process_audio_action red_dress_env voice_request completed_store))
        ''voice_1_abc'') =
     Some [\<lparr>role = User, content = ''find me a red dress'', timestamp = 10\<rparr>,
           \<lparr>role = Assistant, content = ''Here are some red dresses.'', timestamp = 20\<rparr>]"
proof -
  have e: "conversationHistory completed_session = []"
    by (simp add: completed_session_def active_session_history)
  obtain st' s' where p:
    "process_audio_action red_dress_env voice_request completed_store = (Inr red_dress_answer, st')"
    "getVoiceSession st' ''voice_1_abc'' = Some s'"
    "conversationHistory s' =
       conversationHistory completed_session @
         [\<lparr>role = User, content = ''find me a red dress'', timestamp = 10\<rparr>,
          \<lparr>role = Assistant, content = ''Here are some red dresses.'', timestamp = 20\<rparr>]"
    using red_dress_turn_outcome [OF completed_store_lookup completed_session_language] by blast
  show ?thesis
    using p e completed_session_status by simp
qed

subsection \<open>A turn whose model call fails\<close>

text \<open>
  Claim C6. When the call of the generative model throws, the turn still succeeds: the
  response carries the fixed apology, the intent \<open>unknown\<close> and no suggested action (the
  fallback response has no \<^verbatim>\<open>suggestedActions\<close>, which dispatch reads as the empty list and
  the response leaves out), and the history is the old one followed by the user's
  transcript and the apology.
\<close>

theorem engine_failure_masked:
  assumes "req_method req = ''POST''" and "req_audio req = Some a"
    and "req_sessionId req = Some sid" and "sid \<noteq> []"
    and "getVoiceSession st sid = Some s"
    and "transcribeAudio (recognize env) a (Some (or_else (req_language req) (language s))) = Inr tr"
    and "transcript tr \<noteq> []"
    and "chat env (buildAssistantContext env s) (transcript tr) = Inl e"
  shows "\<exists>resp st' s'. process_audio_action env req st = (Inr resp, st') \<and>
           out_text resp = fallback_text \<and> out_intent resp = unknown \<and>
           (case out_actions resp of Some as \<Rightarrow> as | None \<Rightarrow> []) = [] \<and>
           getVoiceSession st' sid = Some s' \<and>
           conversationHistory s' =
             conversationHistory s @
               [\<lparr>role = User, content = transcript tr, timestamp = clock_user env\<rparr>,
                \<lparr>role = Assistant, content = fallback_text, timestamp = clock_assistant env\<rparr>]"
proof -
  let ?ai = "engine_response env s tr"
  have ai: "?ai = \<lparr>resp_text = fallback_text, resp_intent = unknown, resp_confidence = 0,
            resp_suggestedActions = None, resp_tokensUsed = None\<rparr>"
    using assms(8) by (rule engine_response_fallback)
  have i: "resp_intent ?ai \<noteq> funnel_navigation"
    using ai by simp
  obtain st' s' where p: "process_audio_action env req st = (Inr (turn_result tr ?ai), st')"
    "getVoiceSession st' sid = Some s'"
    "kept (appended (assistant_message env ?ai) (Some (intent_name (resp_intent ?ai)))
             (appended (user_message env tr) None s)) s'"
    using turn_succeeds [OF assms(1-7) i] by blast
  have h: "conversationHistory s' = conversationHistory s @
      [\<lparr>role = User, content = transcript tr, timestamp = clock_user env\<rparr>,
       \<lparr>role = Assistant, content = fallback_text, timestamp = clock_assistant env\<rparr>]"
    using history_after_turn(1) [OF p(3)] ai
    by (simp add: user_message_def assistant_message_def)
  have r: "out_text (turn_result tr ?ai) = fallback_text"
    "out_intent (turn_result tr ?ai) = unknown"
    "(case out_actions (turn_result tr ?ai) of Some as \<Rightarrow> as | None \<Rightarrow> []) = []"
    using ai by (simp_all add: turn_result_def)
  show ?thesis
    using p(1,2) r h by blast
qed

text \<open>
  The red-dress turn on a fresh session while the model is unavailable.
\<close>

theorem engine_failure_masked_witness:
  "\<exists>resp st' s'. process_audio_action engine_down_env voice_request active_store = (Inr resp, st') \<and>
     out_text resp = fallback_text \<and> out_intent resp = unknown \<and>
     (case out_actions resp of Some as \<Rightarrow> as | None \<Rightarrow> []) = [] \<and>
     getVoiceSession st' ''voice_1_abc'' = Some s' \<and>
     conversationHistory s' =
       conversationHistory active_session @
         [\<lparr>role = User, content = transcript red_dress_heard,
           timestamp = clock_user engine_down_env\<rparr>,
          \<lparr>role = Assistant, content = fallback_text, timestamp = clock_assistant engine_down_env\<rparr>]"
proof -
  have tr: "transcribeAudio (recognize engine_down_env) []
      (Some (or_else (req_language voice_request) (language active_session))) = Inr red_dress_heard"
    using engine_down_transcribed by (simp add: voice_request_fields active_session_language)
  have c: "chat engine_down_env (buildAssistantContext engine_down_env active_session)
      (transcript red_dress_heard) = Inl (Error ''503 unavailable'')"
    by (simp add: engine_down_env_def)
  show ?thesis
    using engine_failure_masked [OF voice_request_fields(1,2,3) session_id_nonempty
        active_store_lookup tr red_dress_heard_nonempty c]
    by blast
qed

subsection \<open>The red-dress scenario\<close>

text \<open>
  Claim C9, as the code has it. On a session created with language \<^verbatim>\<open>en-US\<close>, a turn whose
  transcript is \<^verbatim>\<open>find me a red dress\<close> and whose model call returns is classified
  \<open>product_search\<close>, and the session's counter of that intent becomes 1. A
  \<^verbatim>\<open>search_products\<close> action is suggested exactly when the model's reply contains
  \<^verbatim>\<open>search for\<close> or \<^verbatim>\<open>searching for\<close> followed by a quoted, non-empty phrase, which is then
  the query; for any other reply the list of suggested actions is empty.
\<close>

theorem red_dress_turn:
  assumes "createVoiceSession fresh now d st0 = Inr (session, st)"
    and "new_language d = Some ''en-US''" and "fresh \<noteq> []"
    and "req_method req = ''POST''" and "req_audio req = Some a"
    and "req_sessionId req = Some fresh"
    and "transcribeAudio (recognize env) a (Some (or_else (req_language req) ''en-US'')) = Inr tr"
    and "transcript tr = ''find me a red dress''"
    and "chat env (buildAssistantContext env session) ''find me a red dress'' = Inr reply"
  shows "\<exists>resp st' s'. process_audio_action env req st = (Inr resp, st') \<and>
           out_intent resp = product_search \<and>
           out_actions resp =
             Some (case search_match (case reply_text reply of Some t \<Rightarrow> t | None \<Rightarrow> []) of
                     Some q \<Rightarrow> [\<lparr>action_type = ''search_products'',
                                  action_payload = no_data\<lparr>data_query := Some q\<rparr>\<rparr>]
                   | None \<Rightarrow> []) \<and>
           getVoiceSession st' fresh = Some s' \<and>
           intents (analytics s') ''product_search'' = Some 1"
proof -
  let ?ai = "engine_response env session tr"
  have lang: "language session = ''en-US''"
    using createVoiceSession_stored(2) [OF assms(1)] assms(2) by (simp add: or_else_def)
  have tr: "transcribeAudio (recognize env) a
      (Some (or_else (req_language req) (language session))) = Inr tr"
    using assms(7) lang by simp
  have ne: "transcript tr \<noteq> []"
    using assms(8) by simp
  have i: "resp_intent ?ai = product_search"
    using assms(8,9)
    by (simp add: engine_response_def generateAssistantResponse_def Let_def
        red_dress_is_product_search)
  then have nf: "resp_intent ?ai \<noteq> funnel_navigation"
    by simp
  have acts: "resp_suggestedActions ?ai =
      Some (case search_match (case reply_text reply of Some t \<Rightarrow> t | None \<Rightarrow> []) of
              Some q \<Rightarrow> [\<lparr>action_type = ''search_products'',
                           action_payload = no_data\<lparr>data_query := Some q\<rparr>\<rparr>]
            | None \<Rightarrow> [])"
    using assms(8,9)
    by (simp add: engine_response_def generateAssistantResponse_def Let_def
        red_dress_is_product_search)
  obtain st' s' where p: "process_audio_action env req st = (Inr (turn_result tr ?ai), st')"
    "getVoiceSession st' fresh = Some s'"
    "kept (appended (assistant_message env ?ai) (Some (intent_name (resp_intent ?ai)))
             (appended (user_message env tr) None session)) s'"
    using turn_succeeds [OF assms(4,5,6,3) createVoiceSession_stored(1) [OF assms(1)]
        tr ne nf] by blast
  have "intents (analytics s') ''product_search'' = Some 1"
    using intents_after_turn [OF p(3) intent_name_nonempty] i
      createVoiceSession_stored(3) [OF assms(1)]
    by (simp add: count_or_zero_def)
  moreover have "out_intent (turn_result tr ?ai) = product_search"
    using i by (simp add: turn_result_def)
  moreover have "out_actions (turn_result tr ?ai) =
      Some (case search_match (case reply_text reply of Some t \<Rightarrow> t | None \<Rightarrow> []) of
              Some q \<Rightarrow> [\<lparr>action_type = ''search_products'',
                           action_payload = no_data\<lparr>data_query := Some q\<rparr>\<rparr>]
            | None \<Rightarrow> [])"
    using acts by (simp add: turn_result_def)
  ultimately show ?thesis
    using p(1,2) by blast
qed

text \<open>
  The scenario with a model that answers \<^verbatim>\<open>Searching for 'red dress' now.\<close>
\<close>

theorem red_dress_turn_witness:
  "\<exists>resp st' s'. process_audio_action searching_env voice_request active_store = (Inr resp, st') \<and>
     out_intent resp = product_search \<and>
     out_actions resp =
       Some [\<lparr>action_type = ''search_products'',
              action_payload = no_data\<lparr>data_query := Some ''red dress''\<rparr>\<rparr>] \<and>
     getVoiceSession st' ''voice_1_abc'' = Some s' \<and>
     intents (analytics s') ''product_search'' = Some 1"
proof -
  let ?reply = "\<lparr>reply_text = Some ''Searching for 'red dress' now.'',
                 reply_totalTokenCount = Some 57\<rparr>"
  have l: "new_language shopper_web = Some ''en-US''"
    by (simp add: shopper_web_def)
  have tr: "transcribeAudio (recognize searching_env) []
      (Some (or_else (req_language voice_request) ''en-US'')) = Inr red_dress_heard"
    using red_dress_transcribed by (simp add: voice_request_fields searching_env_def)
  have u: "transcript red_dress_heard = ''find me a red dress''"
    by (simp add: red_dress_heard_def)
  have c: "chat searching_env (buildAssistantContext searching_env active_session)
      ''find me a red dress'' = Inr ?reply"
    by (simp add: searching_env_def)
  have q: "(case search_match (case reply_text ?reply of Some t \<Rightarrow> t | None \<Rightarrow> []) of
              Some q \<Rightarrow> [\<lparr>action_type = ''search_products'',
                           action_payload = no_data\<lparr>data_query := Some q\<rparr>\<rparr>]
            | None \<Rightarrow> []) =
           [\<lparr>action_type = ''search_products'',
             action_payload = no_data\<lparr>data_query := Some ''red dress''\<rparr>\<rparr>]"
    using quoted_search_phrase by (simp del: search_match.simps)
  show ?thesis
    using red_dress_turn [OF active_store_created l session_id_nonempty
        voice_request_fields(1,2,3) tr u c]
    unfolding q .
qed

text \<open>
  Claim C9 as stated fails: the session is created with \<^verbatim>\<open>en-US\<close>, the utterance is
  \<^verbatim>\<open>find me a red dress\<close>, the model answers \<^verbatim>\<open>Here are some red dresses.\<close>, and the
  response, of intent \<open>product_search\<close>, suggests no action.
\<close>

theorem red_dress_no_action_suggested:
  "createVoiceSession ''voice_1_abc'' 0 shopper_web [] = Inr (active_session, active_store) \<and>
   language active_session = ''en-US'' \<and>
   fst (process_audio_action red_dress_env voice_request active_store) = Inr red_dress_answer \<and>
   out_intent red_dress_answer = product_search \<and>
   out_actions red_dress_answer = Some []"
proof -
  obtain st' where
    "process_audio_action red_dress_env voice_request active_store = (Inr red_dress_answer, st')"
    using red_dress_turn_outcome [OF active_store_lookup active_session_language] by blast
  then show ?thesis
    by (simp add: active_session_language active_store_created red_dress_answer_def)
qed

subsection \<open>History length and message count\<close>

lemma session_inv_appended: "session_inv s \<Longrightarrow> session_inv (appended m i s)"
  by (simp add: session_inv_def appended_def)

lemma session_inv_kept: "kept s s' \<Longrightarrow> session_inv s \<Longrightarrow> session_inv s'"
  by (simp add: session_inv_def kept_def)

lemma store_inv_update:
  assumes "store_inv st" and "session_inv s'"
  shows "store_inv (AList.update sid s' st)"
  using assms by (simp add: store_inv_def getVoiceSession_update)

lemma addMessageToSession_store_inv:
  assumes "store_inv st" and "addMessageToSession st sid m i = Inr st'"
  shows "store_inv st'"
proof (cases "getVoiceSession st sid")
  case None
  then show ?thesis
    using assms(2) by (simp add: addMessageToSession_absent)
next
  case (Some s)
  then have st': "st' = AList.update sid (appended m i s) st"
    using assms(2) by (simp add: addMessageToSession_present)
  have "session_inv s"
    using assms(1) Some by (simp add: store_inv_def)
  then show ?thesis
    unfolding st' using store_inv_update [OF assms(1)] session_inv_appended by blast
qed

lemma route_on_inv:
  assumes "session_inv s"
  shows "session_inv (snd (route_on env req s))"
  using route_on_kept_cases [of env req s] assms session_inv_kept session_inv_appended
  by metis

lemma process_audio_action_store_inv:
  assumes "store_inv st"
  shows "store_inv (snd (process_audio_action env req st))"
proof (cases "req_sessionId req")
  case None
  then have "snd (process_audio_action env req st) = st"
    by (simp add: process_audio_action_def split: option.split)
  then show ?thesis using assms by simp
next
  case (Some sid)
  show ?thesis
  proof (cases "getVoiceSession st sid")
    case None
    then have "snd (process_audio_action env req st) = st"
      using Some by (simp add: process_audio_action_def Let_def split: option.split)
    then show ?thesis using assms by simp
  next
    case (Some s)
    have "session_inv s"
      using assms Some by (simp add: store_inv_def)
    then have "session_inv (snd (route_on env req s))"
      by (rule route_on_inv)
    then show ?thesis
      using process_audio_action_stored [OF Some \<open>req_sessionId req = Some sid\<close>, of env]
        store_inv_update [OF assms] by simp
  qed
qed

lemma store_inv_active_store: "store_inv active_store"
  by (simp add: store_inv_def active_store_def createVoiceSession_def shopper_web_def doc_set_def
      Let_def getVoiceSession_def session_inv_def)

text \<open>
  Claim C8. The length of the conversation history equals \<^verbatim>\<open>metadata.totalMessages\<close>
  (\<open>session_inv\<close>) in the session \<^verbatim>\<open>createVoiceSession\<close> returns and stores, whenever the
  creation succeeds; every \<^verbatim>\<open>addMessageToSession\<close> that succeeds keeps the equation in every
  stored session; and so does every successful turn of the process-audio route.
\<close>

theorem history_length_is_totalMessages:
  "(createVoiceSession fresh now d st0 = Inr (session, st_new) \<longrightarrow>
      session_inv session \<and> getVoiceSession st_new fresh = Some session) \<and>
   (store_inv st \<and> addMessageToSession st sid m i = Inr st' \<longrightarrow> store_inv st') \<and>
   (store_inv st1 \<and> process_audio_action env req st1 = (Inr resp, st2) \<longrightarrow> store_inv st2)"
proof (intro conjI impI)
  assume c: "createVoiceSession fresh now d st0 = Inr (session, st_new)"
  show "session_inv session"
    using createVoiceSession_stored(4,5) [OF c] by (simp add: session_inv_def)
  show "getVoiceSession st_new fresh = Some session"
    using c by (rule createVoiceSession_stored(1))
next
  show "store_inv st'" if "store_inv st \<and> addMessageToSession st sid m i = Inr st'"
    using that addMessageToSession_store_inv by blast
  show "store_inv st2" if "store_inv st1 \<and> process_audio_action env req st1 = (Inr resp, st2)"
    using that process_audio_action_store_inv [of st1 env req] by simp
qed

text \<open>
  A session that is created, one appended message, and the red-dress turn.
\<close>

theorem history_length_is_totalMessages_witness:
  "session_inv active_session \<and>
   getVoiceSession active_store ''voice_1_abc'' = Some active_session \<and>
   store_inv active_store \<and>
   fst (process_audio_action red_dress_env voice_request active_store) = Inr red_dress_answer \<and>
   store_inv (snd (process_audio_action red_dress_env voice_request active_store)) \<and>
   store_inv (projr (addMessageToSession active_store ''voice_1_abc''
                \<lparr>role = User, content = ''hello'', timestamp = 5\<rparr> None))"
proof -
  let ?m = "\<lparr>role = User, content = ''hello'', timestamp = 5\<rparr>"
  obtain st2 where p: "process_audio_action red_dress_env voice_request active_store =
      (Inr red_dress_answer, st2)"
    using red_dress_turn_outcome [OF active_store_lookup active_session_language] by blast
  obtain st' where a: "addMessageToSession active_store ''voice_1_abc'' ?m None = Inr st'"
    using addMessageToSession_present [OF active_store_lookup] by blast
  note T = history_length_is_totalMessages [where fresh = "''voice_1_abc''" and now = 0
      and d = shopper_web and ?st0.0 = "[]" and session = active_session and st_new = active_store
      and st = active_store and sid = "''voice_1_abc''" and m = ?m and i = None and st' = st'
      and ?st1.0 = active_store and env = red_dress_env and req = voice_request
      and resp = red_dress_answer and ?st2.0 = st2]
  have "session_inv active_session" "getVoiceSession active_store ''voice_1_abc'' = Some active_session"
    "store_inv st2" "store_inv st'"
    using T active_store_created store_inv_active_store p a by blast+
  then show ?thesis
    using store_inv_active_store p a by simp
qed

end
